theory Spec2Isabelle
  imports Complex_Main
begin

section \<open>Maternal Health Tracking System: data model\<close>

text \<open>
  The repository holds two variants of the canister: version 1.0.0 (validation, provider
  check, automated risk assessment, alerts, serialisation of timestamps) and version
  1.1.0 in \<^verbatim>\<open>src/index.ts\<close> (sanitising, \<^verbatim>\<open>parseDateToBigInt\<close>, profile lookup before
  metrics are recorded, role middleware). Definitions of version 1.0.0 carry the source's
  names; those of version 1.1.0 carry the suffix \<open>_v11\<close>.

  A JavaScript \<^verbatim>\<open>number\<close> read from a JSON body is modelled by the real number it denotes
  (comparison against the integer thresholds of the code is exact on doubles), a
  \<^verbatim>\<open>bigint\<close> by \<^typ>\<open>int\<close>, a property that a request body may leave out by
  \<^typ>\<open>'a option\<close> with \<open>None\<close> for \<^verbatim>\<open>undefined\<close>. A \<^typ>\<open>char\<close> stands for one
  code unit of a JavaScript string. Every property of a request body is taken at the type
  its interface declares; the rate limiter of version 1.1.0 is not modelled.
\<close>

datatype RiskLevel = LOW | MEDIUM | HIGH

datatype Trimester = FIRST | SECOND | THIRD

record HealthcareProvider =
  hp_id :: string
  hp_name :: string
  hp_specialization :: string
  hp_licenseNumber :: string
  hp_contactInfo :: string
  hp_facilityId :: string
  hp_isActive :: bool
  hp_role :: "string option"
  hp_lastUpdated :: int

text \<open>
  Stored objects are built by spreading the request body over a few defaults, so every
  property without a default may be missing at run time.
\<close>

record MaternalProfile =
  mp_id :: string
  mp_name :: "string option"
  mp_age :: "real option"
  mp_bloodType :: "string option"
  mp_emergencyContact :: "string option"
  mp_dueDate :: int
  mp_currentTrimester :: "Trimester option"
  mp_riskLevel :: "RiskLevel option"
  mp_primaryCareProviderId :: "string option"
  mp_createdAt :: int
  mp_lastUpdated :: int
  mp_medicalHistory :: "string list"
  mp_allergies :: "string list"
  mp_isHighRiskPregnancy :: bool

record HealthMetrics =
  hm_id :: string
  hm_maternalProfileId :: "string option"
  hm_recordedAt :: int
  hm_weight :: "real option"
  hm_bloodPressureSystolic :: "real option"
  hm_bloodPressureDiastolic :: "real option"
  hm_bloodSugar :: "real option"
  hm_hemoglobinLevels :: "real option"
  hm_fetalHeartRate :: "real option"
  hm_notes :: "string option"
  hm_recordedById :: "string option"
  hm_isFlaggedForReview :: bool

record PrenatalVisit =
  pv_id :: string
  pv_maternalProfileId :: string
  pv_providerId :: string
  pv_scheduledDate :: int
  pv_completed :: bool
  pv_visitType :: string
  pv_findings :: string
  pv_recommendations :: string
  pv_nextVisitDate :: "int option"
  pv_prescriptions :: "string list"
  pv_followUpRequired :: bool
  pv_cancellationReason :: "string option"

record HealthAlert =
  ha_id :: string
  ha_maternalProfileId :: "string option"
  ha_createdAt :: int
  ha_severity :: RiskLevel
  ha_description :: string
  ha_recommendedAction :: string
  ha_resolved :: bool
  ha_resolvedAt :: "int option"
  ha_providerId :: "string option"
  ha_resolutionNotes :: "string option"
  ha_escalationLevel :: nat

text \<open>The request bodies: \<^verbatim>\<open>Partial<MaternalProfile>\<close> and \<^verbatim>\<open>Partial<HealthMetrics>\<close>.
  The body's \<^verbatim>\<open>dueDate\<close> is the date string handed to \<^verbatim>\<open>new Date\<close>.\<close>

record MaternalProfileBody =
  mpb_id :: "string option"
  mpb_name :: "string option"
  mpb_age :: "real option"
  mpb_bloodType :: "string option"
  mpb_emergencyContact :: "string option"
  mpb_dueDate :: "string option"
  mpb_currentTrimester :: "Trimester option"
  mpb_riskLevel :: "RiskLevel option"
  mpb_primaryCareProviderId :: "string option"
  mpb_createdAt :: "int option"
  mpb_lastUpdated :: "int option"
  mpb_medicalHistory :: "string list option"
  mpb_allergies :: "string list option"
  mpb_isHighRiskPregnancy :: "bool option"

record HealthMetricsBody =
  hmb_id :: "string option"
  hmb_maternalProfileId :: "string option"
  hmb_recordedAt :: "int option"
  hmb_weight :: "real option"
  hmb_bloodPressureSystolic :: "real option"
  hmb_bloodPressureDiastolic :: "real option"
  hmb_bloodSugar :: "real option"
  hmb_hemoglobinLevels :: "real option"
  hmb_fetalHeartRate :: "real option"
  hmb_notes :: "string option"
  hmb_recordedById :: "string option"
  hmb_isFlaggedForReview :: "bool option"

text \<open>The five \<^verbatim>\<open>StableBTreeMap\<close> collections.\<close>

record world =
  maternalProfileStorage :: "string \<rightharpoonup> MaternalProfile"
  providerStorage :: "string \<rightharpoonup> HealthcareProvider"
  metricsStorage :: "string \<rightharpoonup> HealthMetrics"
  visitStorage :: "string \<rightharpoonup> PrenatalVisit"
  alertStorage :: "string \<rightharpoonup> HealthAlert"

text \<open>
  \<^verbatim>\<open>storage.get(key)\<close>, where the key is read from the body. An \<^verbatim>\<open>undefined\<close> key
  cannot be encoded and the call throws; for a string the result is \<^verbatim>\<open>{Some: v}\<close>, or
  \<^verbatim>\<open>{None: null}\<close> when the key is not in the map.
\<close>

datatype 'a outcome = Thrown | Returned 'a

definition storage_get :: "(string \<rightharpoonup> 'v) \<Rightarrow> string option \<Rightarrow> 'v option outcome" where
  "storage_get storage key = (case key of None \<Rightarrow> Thrown | Some k \<Rightarrow> Returned (storage k))"

text \<open>
  What the handlers take from their host: the \<open>k\<close>-th result of \<^verbatim>\<open>uuidv4()\<close> and of
  \<^verbatim>\<open>ic.time()\<close> within the request, and the time value (milliseconds since the epoch)
  that \<^verbatim>\<open>new Date(s)\<close> parses from a string, \<open>None\<close> for an invalid date.
\<close>

record host =
  uuidv4 :: "nat \<Rightarrow> string"
  ic_time :: "nat \<Rightarrow> int"
  Date_parse :: "string \<Rightarrow> int option"

text \<open>\<^verbatim>\<open>res.json(v)\<close> and \<^verbatim>\<open>res.status(code).json({ error: message })\<close>.\<close>

datatype 'a response = Json 'a | Error nat string

section \<open>Truthiness and comparison of optional numbers\<close>

text \<open>\<^verbatim>\<open>undefined\<close>, \<open>0\<close> and the empty string are falsy.\<close>

definition truthy_number :: "real option \<Rightarrow> bool" where
  "truthy_number x = (case x of None \<Rightarrow> False | Some v \<Rightarrow> v \<noteq> 0)"

definition truthy_string :: "string option \<Rightarrow> bool" where
  "truthy_string s = (case s of None \<Rightarrow> False | Some v \<Rightarrow> v \<noteq> [])"

text \<open>A comparison with \<^verbatim>\<open>undefined\<close> converts it to \<^verbatim>\<open>NaN\<close> and is false.\<close>

definition js_lt :: "real option \<Rightarrow> real \<Rightarrow> bool" where
  "js_lt x c = (case x of None \<Rightarrow> False | Some v \<Rightarrow> v < c)"

definition js_gt :: "real option \<Rightarrow> real \<Rightarrow> bool" where
  "js_gt x c = (case x of None \<Rightarrow> False | Some v \<Rightarrow> c < v)"

definition js_ge :: "real option \<Rightarrow> real \<Rightarrow> bool" where
  "js_ge x c = (case x of None \<Rightarrow> False | Some v \<Rightarrow> c \<le> v)"

section \<open>Validation rules\<close>

definition isWhiteSpace :: "char \<Rightarrow> bool" where
  "isWhiteSpace c =
     (c \<in> set [CHR 0x09, CHR 0x0A, CHR 0x0B, CHR 0x0C, CHR 0x0D, CHR 0x20, CHR 0xA0])"

definition trim :: "string \<Rightarrow> string" where
  "trim s = rev (dropWhile isWhiteSpace (rev (dropWhile isWhiteSpace s)))"

definition bloodTypes :: "string list" where
  "bloodTypes = [''A+'', ''A-'', ''B+'', ''B-'', ''AB+'', ''AB-'', ''O+'', ''O-'']"

definition validateProfile :: "MaternalProfileBody \<Rightarrow> string option" where
  "validateProfile profile =
     (if \<not> truthy_string (mpb_name profile) \<or> length (trim (the (mpb_name profile))) < 2
      then Some ''Name must be at least 2 characters long''
      else if \<not> truthy_number (mpb_age profile) \<or> js_lt (mpb_age profile) 16
                \<or> js_gt (mpb_age profile) 60
      then Some ''Age must be between 16 and 60''
      else if \<not> truthy_string (mpb_bloodType profile)
                \<or> the (mpb_bloodType profile) \<notin> set bloodTypes
      then Some ''Invalid blood type''
      else None)"

definition validateHealthMetrics :: "HealthMetricsBody \<Rightarrow> string option" where
  "validateHealthMetrics metrics =
     (if truthy_number (hmb_bloodPressureSystolic metrics)
          \<and> (js_lt (hmb_bloodPressureSystolic metrics) 70
               \<or> js_gt (hmb_bloodPressureSystolic metrics) 190)
      then Some ''Invalid systolic blood pressure range''
      else if truthy_number (hmb_bloodPressureDiastolic metrics)
          \<and> (js_lt (hmb_bloodPressureDiastolic metrics) 40
               \<or> js_gt (hmb_bloodPressureDiastolic metrics) 120)
      then Some ''Invalid diastolic blood pressure range''
      else if truthy_number (hmb_bloodSugar metrics)
          \<and> (js_lt (hmb_bloodSugar metrics) 30 \<or> js_gt (hmb_bloodSugar metrics) 500)
      then Some ''Invalid blood sugar range''
      else None)"

text \<open>Version 1.1.0: the name is at most 100 code units long, blood sugar is not checked.\<close>

definition sanitizeString :: "string \<Rightarrow> string" where
  "sanitizeString input = filter (\<lambda>c. c \<noteq> CHR ''<'' \<and> c \<noteq> CHR ''>'') input"

definition validateProfile_v11 :: "MaternalProfileBody \<Rightarrow> string option" where
  "validateProfile_v11 profile =
     (if \<not> truthy_string (mpb_name profile) \<or> length (trim (the (mpb_name profile))) < 2
          \<or> 100 < length (the (mpb_name profile))
      then Some ''Name must be between 2 and 100 characters''
      else if \<not> truthy_number (mpb_age profile) \<or> js_lt (mpb_age profile) 16
                \<or> js_gt (mpb_age profile) 60
      then Some ''Age must be between 16 and 60''
      else if \<not> truthy_string (mpb_bloodType profile)
                \<or> the (mpb_bloodType profile) \<notin> set bloodTypes
      then Some ''Invalid blood type''
      else None)"

definition validateHealthMetrics_v11 :: "HealthMetricsBody \<Rightarrow> string option" where
  "validateHealthMetrics_v11 metrics =
     (if truthy_number (hmb_bloodPressureSystolic metrics)
          \<and> (js_lt (hmb_bloodPressureSystolic metrics) 70
               \<or> js_gt (hmb_bloodPressureSystolic metrics) 190)
      then Some ''Invalid systolic blood pressure range''
      else if truthy_number (hmb_bloodPressureDiastolic metrics)
          \<and> (js_lt (hmb_bloodPressureDiastolic metrics) 40
               \<or> js_gt (hmb_bloodPressureDiastolic metrics) 120)
      then Some ''Invalid diastolic blood pressure range''
      else None)"

section \<open>Risk assessment\<close>

definition assessRisk :: "HealthMetrics \<Rightarrow> bool" where
  "assessRisk metrics =
     (js_ge (hm_bloodPressureSystolic metrics) 140
      \<or> js_ge (hm_bloodPressureDiastolic metrics) 90
      \<or> js_gt (hm_bloodSugar metrics) 140
      \<or> js_lt (hm_hemoglobinLevels metrics) 9)"

section \<open>Time layer\<close>

subsection \<open>Double-precision rounding\<close>

text \<open>
  \<^verbatim>\<open>Number(t) / 1_000_000\<close> and \<^verbatim>\<open>getTime() * 1_000_000\<close> are computed on IEEE 754
  doubles. A finite double is the rational it denotes; \<open>to_double\<close> rounds a rational to
  the nearest number with a 53-bit significand, ties to the even significand. The
  exponent range is left unbounded: the values that occur are whole numbers, or whole
  numbers divided by \<open>10\<^sup>6\<close>, so none is subnormal, and a value large enough to overflow is
  far outside the range of time values either way.
\<close>

function ilog2 :: "int \<Rightarrow> int" where
  "ilog2 n = (if n < 2 then 0 else 1 + ilog2 (n div 2))"
  by pat_completeness auto
termination
  by (relation "measure nat") auto

declare ilog2.simps [simp del]

definition pow2 :: "int \<Rightarrow> rat" where
  "pow2 e = (if 0 \<le> e then 2 ^ nat e else 1 / 2 ^ nat (- e))"

text \<open>For \<open>0 < x\<close>, the exponent \<open>e\<close> with \<open>2\<^sup>e \<le> x < 2\<^sup>e\<^sup>+\<^sup>1\<close>.\<close>

definition exponent_of :: "rat \<Rightarrow> int" where
  "exponent_of x =
     (case quotient_of x of (a, b) \<Rightarrow>
        let e0 = ilog2 a - ilog2 b
        in if x < pow2 e0 then e0 - 1 else e0)"

definition round_half_even :: "rat \<Rightarrow> int" where
  "round_half_even m =
     (let f = \<lfloor>m\<rfloor>; r = m - of_int f
      in if r < 1 / 2 then f else if 1 / 2 < r then f + 1 else if even f then f else f + 1)"

definition to_double :: "rat \<Rightarrow> rat" where
  "to_double x =
     (if x = 0 then 0
      else let a = \<bar>x\<bar>; q = pow2 (exponent_of a - 52)
           in sgn x * of_int (round_half_even (a / q)) * q)"

text \<open>\<^verbatim>\<open>Number(b)\<close> of a bigint, and \<^verbatim>\<open>BigInt(v)\<close> of a number, which throws a RangeError
  (\<open>None\<close>) unless \<open>v\<close> is a whole number.\<close>

definition Number :: "int \<Rightarrow> rat" where
  "Number b = to_double (of_int b)"

definition BigInt :: "rat \<Rightarrow> int option" where
  "BigInt v = (if of_int \<lfloor>v\<rfloor> = v then Some \<lfloor>v\<rfloor> else None)"

subsection \<open>Dates\<close>

text \<open>
  A \<^verbatim>\<open>Date\<close> holds a time value: a whole number of milliseconds of magnitude at most
  \<open>8.64 \<times> 10\<^sup>1\<^sup>5\<close>, or \<^verbatim>\<open>NaN\<close> (\<open>None\<close>). \<^verbatim>\<open>new Date(v)\<close> of a number clips it:
  out of range gives \<^verbatim>\<open>NaN\<close>, a fraction is cut off towards zero.
\<close>

definition TimeClip :: "rat \<Rightarrow> int option" where
  "TimeClip v = (if 8640000000000000 < \<bar>v\<bar> then None
                 else Some (if 0 \<le> v then \<lfloor>v\<rfloor> else \<lceil>v\<rceil>))"

text \<open>\<^verbatim>\<open>new Date(d).getTime()\<close> of the body's date string.\<close>

definition getTime :: "host \<Rightarrow> string option \<Rightarrow> int option" where
  "getTime h d =
     (case d of None \<Rightarrow> None
      | Some s \<Rightarrow>
          (case Date_parse h s of None \<Rightarrow> None
           | Some t \<Rightarrow> if \<bar>t\<bar> \<le> 8640000000000000 then Some t else None))"

text \<open>
  \<^verbatim>\<open>toISOString()\<close> throws a RangeError on an invalid date. The ISO-8601 text is an
  injective rendering of the time value, so \<open>ISO t\<close> stands for the string of \<open>t\<close>.
\<close>

datatype ISOString = ISO int

definition toISOString :: "int option \<Rightarrow> ISOString option" where
  "toISOString tv = (case tv of None \<Rightarrow> None | Some t \<Rightarrow> Some (ISO t))"

text \<open>Version 1.0.0 stores \<^verbatim>\<open>BigInt(new Date(d).getTime() * 1_000_000)\<close> and displays
  \<^verbatim>\<open>new Date(Number(t) / 1_000_000).toISOString()\<close>.\<close>

definition storeTime :: "int option \<Rightarrow> int option" where
  "storeTime ms = (case ms of None \<Rightarrow> None | Some t \<Rightarrow> BigInt (to_double (of_int t * 1000000)))"

definition displayTime :: "int \<Rightarrow> ISOString option" where
  "displayTime t = toISOString (TimeClip (to_double (Number t / 1000000)))"

text \<open>Version 1.1.0 multiplies bigints.\<close>

definition NANOS_PER_MILLISECOND :: int where
  "NANOS_PER_MILLISECOND = 1000000"

definition parseDateToBigInt :: "host \<Rightarrow> string option \<Rightarrow> int option" where
  "parseDateToBigInt h dateString =
     (case getTime h dateString of None \<Rightarrow> None
      | Some t \<Rightarrow> Some (t * NANOS_PER_MILLISECOND))"

subsection \<open>Serialisation\<close>

text \<open>The serialised object is the stored one with its timestamps replaced by strings.\<close>

record SerializedProfile =
  sp_profile :: MaternalProfile
  sp_dueDate :: ISOString
  sp_createdAt :: ISOString
  sp_lastUpdated :: ISOString

record SerializedMetrics =
  sm_metrics :: HealthMetrics
  sm_recordedAt :: ISOString

definition serializeProfile :: "MaternalProfile \<Rightarrow> string + SerializedProfile" where
  "serializeProfile profile =
     (case displayTime (mp_dueDate profile) of
        None \<Rightarrow> Inl ''Failed to serialize profile data''
      | Some d \<Rightarrow>
     (case displayTime (mp_createdAt profile) of
        None \<Rightarrow> Inl ''Failed to serialize profile data''
      | Some c \<Rightarrow>
     (case displayTime (mp_lastUpdated profile) of
        None \<Rightarrow> Inl ''Failed to serialize profile data''
      | Some l \<Rightarrow>
          Inr \<lparr>sp_profile = profile, sp_dueDate = d, sp_createdAt = c, sp_lastUpdated = l\<rparr>)))"

definition serializeMetrics :: "HealthMetrics \<Rightarrow> string + SerializedMetrics" where
  "serializeMetrics metrics =
     (case displayTime (hm_recordedAt metrics) of
        None \<Rightarrow> Inl ''Failed to serialize metrics data''
      | Some r \<Rightarrow> Inr \<lparr>sm_metrics = metrics, sm_recordedAt = r\<rparr>)"

section \<open>Route handlers, version 1.0.0\<close>

text \<open>The value of property \<open>p\<close> in \<^verbatim>\<open>{ p: d, ...req.body }\<close>: the body's, if it has one.\<close>

definition spread :: "'a \<Rightarrow> 'a option \<Rightarrow> 'a" where
  "spread d v = (case v of None \<Rightarrow> d | Some x \<Rightarrow> x)"

text \<open>The object literal of \<^verbatim>\<open>app.post("/maternal-profiles")\<close>; \<open>due\<close> is the converted
  \<^verbatim>\<open>dueDate\<close>, written after the spread.\<close>

definition newMaternalProfile :: "host \<Rightarrow> MaternalProfileBody \<Rightarrow> int \<Rightarrow> MaternalProfile" where
  "newMaternalProfile h body due =
     \<lparr>mp_id = spread (uuidv4 h 0) (mpb_id body),
      mp_name = mpb_name body,
      mp_age = mpb_age body,
      mp_bloodType = mpb_bloodType body,
      mp_emergencyContact = mpb_emergencyContact body,
      mp_dueDate = due,
      mp_currentTrimester = Some (spread FIRST (mpb_currentTrimester body)),
      mp_riskLevel = Some (spread LOW (mpb_riskLevel body)),
      mp_primaryCareProviderId = mpb_primaryCareProviderId body,
      mp_createdAt = spread (ic_time h 0) (mpb_createdAt body),
      mp_lastUpdated = spread (ic_time h 1) (mpb_lastUpdated body),
      mp_medicalHistory = spread [] (mpb_medicalHistory body),
      mp_allergies = spread [] (mpb_allergies body),
      mp_isHighRiskPregnancy = spread False (mpb_isHighRiskPregnancy body)\<rparr>"

text \<open>
  Every exception inside the handler's \<^verbatim>\<open>try\<close> block ends in status 500: the throw of
  \<^verbatim>\<open>providerStorage.get\<close> on a body without \<^verbatim>\<open>primaryCareProviderId\<close> and the RangeError
  of \<^verbatim>\<open>BigInt(NaN)\<close> for an invalid due date, both before anything is written, and a
  failure of \<open>serializeProfile\<close>, after the insert.
\<close>

definition post_maternal_profiles ::
  "host \<Rightarrow> MaternalProfileBody \<Rightarrow> world \<Rightarrow> SerializedProfile response \<times> world" where
  "post_maternal_profiles h body w =
     (case validateProfile body of
        Some validationError \<Rightarrow> (Error 400 validationError, w)
      | None \<Rightarrow>
     (case storage_get (providerStorage w) (mpb_primaryCareProviderId body) of
        Thrown \<Rightarrow> (Error 500 ''Internal server error'', w)
      | Returned None \<Rightarrow> (Error 404 ''Healthcare provider not found'', w)
      | Returned (Some provider) \<Rightarrow>
          if \<not> hp_isActive provider
          then (Error 400 ''Selected healthcare provider is not active'', w)
          else
     (case storeTime (getTime h (mpb_dueDate body)) of
        None \<Rightarrow> (Error 500 ''Internal server error'', w)
      | Some due \<Rightarrow>
          let profile = newMaternalProfile h body due;
              w' = w\<lparr>maternalProfileStorage :=
                      (maternalProfileStorage w)(mp_id profile \<mapsto> profile)\<rparr>
          in (case serializeProfile profile of
                Inl e \<Rightarrow> (Error 500 ''Internal server error'', w')
              | Inr json \<Rightarrow> (Json json, w')))))"

text \<open>The object literal of \<^verbatim>\<open>app.post("/health-metrics")\<close>.\<close>

definition newHealthMetrics :: "host \<Rightarrow> HealthMetricsBody \<Rightarrow> HealthMetrics" where
  "newHealthMetrics h body =
     \<lparr>hm_id = spread (uuidv4 h 0) (hmb_id body),
      hm_maternalProfileId = hmb_maternalProfileId body,
      hm_recordedAt = spread (ic_time h 0) (hmb_recordedAt body),
      hm_weight = hmb_weight body,
      hm_bloodPressureSystolic = hmb_bloodPressureSystolic body,
      hm_bloodPressureDiastolic = hmb_bloodPressureDiastolic body,
      hm_bloodSugar = hmb_bloodSugar body,
      hm_hemoglobinLevels = hmb_hemoglobinLevels body,
      hm_fetalHeartRate = hmb_fetalHeartRate body,
      hm_notes = hmb_notes body,
      hm_recordedById = hmb_recordedById body,
      hm_isFlaggedForReview = spread False (hmb_isFlaggedForReview body)\<rparr>"

text \<open>\<open>createHighRiskAlert\<close> makes the request's second calls of \<^verbatim>\<open>uuidv4()\<close> and
  \<^verbatim>\<open>ic.time()\<close>.\<close>

definition createHighRiskAlert :: "host \<Rightarrow> HealthMetrics \<Rightarrow> world \<Rightarrow> world" where
  "createHighRiskAlert h metrics w =
     (let alert =
        \<lparr>ha_id = uuidv4 h 1,
         ha_maternalProfileId = hm_maternalProfileId metrics,
         ha_createdAt = ic_time h 1,
         ha_severity = HIGH,
         ha_description = ''Abnormal health metrics detected'',
         ha_recommendedAction = ''Immediate medical review required'',
         ha_resolved = False,
         ha_resolvedAt = None,
         ha_providerId = hm_recordedById metrics,
         ha_resolutionNotes = None,
         ha_escalationLevel = 1\<rparr>
      in w\<lparr>alertStorage := (alertStorage w)(ha_id alert \<mapsto> alert)\<rparr>)"

definition post_health_metrics ::
  "host \<Rightarrow> HealthMetricsBody \<Rightarrow> world \<Rightarrow> SerializedMetrics response \<times> world" where
  "post_health_metrics h body w =
     (case validateHealthMetrics body of
        Some validationError \<Rightarrow> (Error 400 validationError, w)
      | None \<Rightarrow>
          let metrics0 = newHealthMetrics h body;
              isHighRisk = assessRisk metrics0;
              metrics = (if isHighRisk then metrics0\<lparr>hm_isFlaggedForReview := True\<rparr>
                         else metrics0);
              w1 = (if isHighRisk then createHighRiskAlert h metrics w else w);
              w2 = w1\<lparr>metricsStorage := (metricsStorage w1)(hm_id metrics \<mapsto> metrics)\<rparr>
          in (case serializeMetrics metrics of
                Inl e \<Rightarrow> (Error 500 ''Failed to record health metrics'', w2)
              | Inr json \<Rightarrow> (Json json, w2)))"

section \<open>Route handlers, version 1.1.0\<close>

text \<open>
  The handlers run behind the rate limiter and the role middleware \<open>authorize\<close>, which
  answers 403 unless the \<^verbatim>\<open>x-role\<close> header is the required role. Neither a provider
  check, nor defaults for trimester and risk level, nor a risk assessment is part of this
  variant. \<^verbatim>\<open>res.json\<close> is handed the stored object itself, whose timestamps are
  bigints: \<^verbatim>\<open>JSON.stringify\<close> throws a TypeError on a bigint, so the call throws after
  the insert and the \<^verbatim>\<open>catch\<close> block answers 500.
\<close>

definition authorize :: "string \<Rightarrow> string option \<Rightarrow> 'a response option" where
  "authorize requiredRole userRole =
     (if userRole \<noteq> Some requiredRole then Some (Error 403 ''Forbidden'') else None)"

definition newMaternalProfile_v11 ::
  "host \<Rightarrow> MaternalProfileBody \<Rightarrow> int \<Rightarrow> MaternalProfile" where
  "newMaternalProfile_v11 h body due =
     \<lparr>mp_id = spread (uuidv4 h 0) (mpb_id body),
      mp_name = mpb_name body,
      mp_age = mpb_age body,
      mp_bloodType = mpb_bloodType body,
      mp_emergencyContact = mpb_emergencyContact body,
      mp_dueDate = due,
      mp_currentTrimester = mpb_currentTrimester body,
      mp_riskLevel = mpb_riskLevel body,
      mp_primaryCareProviderId = mpb_primaryCareProviderId body,
      mp_createdAt = spread (ic_time h 0) (mpb_createdAt body),
      mp_lastUpdated = spread (ic_time h 1) (mpb_lastUpdated body),
      mp_medicalHistory = spread [] (mpb_medicalHistory body),
      mp_allergies = spread [] (mpb_allergies body),
      mp_isHighRiskPregnancy = spread False (mpb_isHighRiskPregnancy body)\<rparr>"

text \<open>\<^verbatim>\<open>!dueDate\<close> holds for \<^verbatim>\<open>null\<close> and for \<^verbatim>\<open>0n\<close>.\<close>

definition post_maternal_profiles_v11 ::
  "host \<Rightarrow> MaternalProfileBody \<Rightarrow> world \<Rightarrow> MaternalProfile response \<times> world" where
  "post_maternal_profiles_v11 h body0 w =
     (let body = (if truthy_string (mpb_name body0)
                  then body0\<lparr>mpb_name := Some (sanitizeString (the (mpb_name body0)))\<rparr>
                  else body0)
      in case validateProfile_v11 body of
           Some validationError \<Rightarrow> (Error 400 validationError, w)
         | None \<Rightarrow>
             (case parseDateToBigInt h (mpb_dueDate body) of
                None \<Rightarrow> (Error 400 ''Invalid date format for dueDate'', w)
              | Some dueDate \<Rightarrow>
                  if dueDate = 0 then (Error 400 ''Invalid date format for dueDate'', w)
                  else
                    let profile = newMaternalProfile_v11 h body dueDate
                    in (Error 500 ''Internal server error'',
                        w\<lparr>maternalProfileStorage :=
                            (maternalProfileStorage w)(mp_id profile \<mapsto> profile)\<rparr>)))"

definition post_health_metrics_v11 ::
  "host \<Rightarrow> HealthMetricsBody \<Rightarrow> world \<Rightarrow> HealthMetrics response \<times> world" where
  "post_health_metrics_v11 h body w =
     (case storage_get (maternalProfileStorage w) (hmb_maternalProfileId body) of
        Thrown \<Rightarrow> (Error 500 ''Failed to record health metrics'', w)
      | Returned None \<Rightarrow> (Error 404 ''Maternal profile not found'', w)
      | Returned (Some profile) \<Rightarrow>
          (case validateHealthMetrics_v11 body of
             Some validationError \<Rightarrow> (Error 400 validationError, w)
           | None \<Rightarrow>
               let metrics = newHealthMetrics h body
               in (Error 500 ''Failed to record health metrics'',
                   w\<lparr>metricsStorage := (metricsStorage w)(hm_id metrics \<mapsto> metrics)\<rparr>)))"

definition maternal_profiles_route_v11 ::
  "string option \<Rightarrow> host \<Rightarrow> MaternalProfileBody \<Rightarrow> world
     \<Rightarrow> MaternalProfile response \<times> world" where
  "maternal_profiles_route_v11 x_role h body w =
     (case authorize ''admin'' x_role of
        Some forbidden \<Rightarrow> (forbidden, w)
      | None \<Rightarrow> post_maternal_profiles_v11 h body w)"

definition health_metrics_route_v11 ::
  "string option \<Rightarrow> host \<Rightarrow> HealthMetricsBody \<Rightarrow> world
     \<Rightarrow> HealthMetrics response \<times> world" where
  "health_metrics_route_v11 x_role h body w =
     (case authorize ''provider'' x_role of
        Some forbidden \<Rightarrow> (forbidden, w)
      | None \<Rightarrow> post_health_metrics_v11 h body w)"

section \<open>Alert resolution\<close>

datatype AlertError = NotFoundError

text \<open>Modelled from the spec: \<open>resolveAlert\<close> is not in the source (no route or function
  updates an alert). The specification gives \<^verbatim>\<open>resolveAlert(id, notes) -> Alert | NotFoundError\<close>,
  the states Open (created, unresolved) and Resolved (terminal, with \<open>resolvedAt\<close> and
  optional resolution notes), and leaves the choice between rejecting and ignoring the
  resolution of a Resolved alert; the result type has no rejection, so it is ignored here:
  the alert is returned as it is and nothing is written. \<open>now\<close> is the clock's time.\<close>

definition resolveAlert ::
  "int \<Rightarrow> string \<Rightarrow> string option \<Rightarrow> world \<Rightarrow> (AlertError + HealthAlert) \<times> world" where
  "resolveAlert now alertId notes w =
     (case alertStorage w alertId of
        None \<Rightarrow> (Inl NotFoundError, w)
      | Some alert \<Rightarrow>
          if ha_resolved alert then (Inr alert, w)
          else
            let resolved = alert\<lparr>ha_resolved := True, ha_resolvedAt := Some now,
                                 ha_resolutionNotes := notes\<rparr>
            in (Inr resolved, w\<lparr>alertStorage := (alertStorage w)(alertId \<mapsto> resolved)\<rparr>))"

section \<open>Example requests\<close>

text \<open>The requests of the README, a host, and a world with an active and an inactive
  provider.\<close>

definition emptyProfileBody :: MaternalProfileBody where
  "emptyProfileBody =
     \<lparr>mpb_id = None, mpb_name = None, mpb_age = None, mpb_bloodType = None,
      mpb_emergencyContact = None, mpb_dueDate = None, mpb_currentTrimester = None,
      mpb_riskLevel = None, mpb_primaryCareProviderId = None, mpb_createdAt = None,
      mpb_lastUpdated = None, mpb_medicalHistory = None, mpb_allergies = None,
      mpb_isHighRiskPregnancy = None\<rparr>"

definition janeDoe :: MaternalProfileBody where
  "janeDoe =
     emptyProfileBody\<lparr>mpb_name := Some ''Jane Doe'', mpb_age := Some 28,
       mpb_bloodType := Some ''O+'', mpb_emergencyContact := Some ''+1234567890'',
       mpb_primaryCareProviderId := Some ''provider-123'',
       mpb_dueDate := Some ''2024-12-25''\<rparr>"

definition emptyMetricsBody :: HealthMetricsBody where
  "emptyMetricsBody =
     \<lparr>hmb_id = None, hmb_maternalProfileId = None, hmb_recordedAt = None,
      hmb_weight = None, hmb_bloodPressureSystolic = None,
      hmb_bloodPressureDiastolic = None, hmb_bloodSugar = None,
      hmb_hemoglobinLevels = None, hmb_fetalHeartRate = None, hmb_notes = None,
      hmb_recordedById = None, hmb_isFlaggedForReview = None\<rparr>"

definition regularCheckup :: HealthMetricsBody where
  "regularCheckup =
     emptyMetricsBody\<lparr>hmb_maternalProfileId := Some ''profile-123'', hmb_weight := Some 65,
       hmb_bloodPressureSystolic := Some 120, hmb_bloodPressureDiastolic := Some 80,
       hmb_bloodSugar := Some 95, hmb_hemoglobinLevels := Some 12,
       hmb_recordedById := Some ''provider-123'', hmb_notes := Some ''Regular checkup''\<rparr>"

definition host0 :: host where
  "host0 =
     \<lparr>uuidv4 = (\<lambda>k. if k = 0 then ''uuid-0'' else ''uuid-1''),
      ic_time = (\<lambda>k. 1700000000000000000),
      Date_parse = (\<lambda>s. if s = ''2024-12-25'' then Some 1735084800000 else None)\<rparr>"

definition provider123 :: HealthcareProvider where
  "provider123 =
     \<lparr>hp_id = ''provider-123'', hp_name = ''Dr. Achieng'', hp_specialization = ''Obstetrics'',
      hp_licenseNumber = ''L-1'', hp_contactInfo = ''+1234567891'', hp_facilityId = ''facility-1'',
      hp_isActive = True, hp_role = None, hp_lastUpdated = 0\<rparr>"

definition provider456 :: HealthcareProvider where
  "provider456 = provider123\<lparr>hp_id := ''provider-456'', hp_isActive := False\<rparr>"

definition world0 :: world where
  "world0 =
     \<lparr>maternalProfileStorage = Map.empty,
      providerStorage = [''provider-123'' \<mapsto> provider123, ''provider-456'' \<mapsto> provider456],
      metricsStorage = Map.empty,
      visitStorage = Map.empty,
      alertStorage = Map.empty\<rparr>"

section \<open>Evaluation of the examples\<close>

lemma displayTime_clock0: "displayTime 1700000000000000000 = Some (ISO 1700000000000)"
  by code_simp

lemma displayTime_due0: "displayTime 1735084800000000000 = Some (ISO 1735084800000)"
  by code_simp

lemma storeTime_due0: "storeTime (Some 1735084800000) = Some 1735084800000000000"
  by code_simp

lemma validateHealthMetrics_regularCheckup: "validateHealthMetrics regularCheckup = None"
  by (simp add: validateHealthMetrics_def truthy_number_def js_lt_def js_gt_def
      regularCheckup_def emptyMetricsBody_def)

lemma validateProfile_janeDoe: "validateProfile janeDoe = None"
  by (simp add: validateProfile_def truthy_number_def truthy_string_def js_lt_def js_gt_def
      janeDoe_def emptyProfileBody_def trim_def isWhiteSpace_def bloodTypes_def)

section \<open>Risk assessment\<close>

text \<open>
  Claim C1. For every HealthMetrics record, \<open>assessRisk\<close> returns high-risk (\<open>True\<close>) if
  and only if the systolic pressure is at least 140, or the diastolic pressure is at least
  90, or the blood sugar is above 140, or the hemoglobin level is below 9; a record that
  breaches none of the thresholds is assessed normal (\<open>False\<close>). A measurement that the
  record does not have breaches nothing.
\<close>

theorem assessRisk_thresholds:
  "assessRisk m \<longleftrightarrow>
     (\<exists>v. hm_bloodPressureSystolic m = Some v \<and> 140 \<le> v)
     \<or> (\<exists>v. hm_bloodPressureDiastolic m = Some v \<and> 90 \<le> v)
     \<or> (\<exists>v. hm_bloodSugar m = Some v \<and> 140 < v)
     \<or> (\<exists>v. hm_hemoglobinLevels m = Some v \<and> v < 9)"
  by (simp add: assessRisk_def js_ge_def js_gt_def js_lt_def split: option.split)

text \<open>The scenario of the specification: 150/80, sugar 95, hemoglobin 12 is high-risk by
  the systolic pressure alone; 120/80 with the same values is normal.\<close>

theorem assessRisk_thresholds_witness:
  "assessRisk (newHealthMetrics host0 (regularCheckup\<lparr>hmb_bloodPressureSystolic := Some 150\<rparr>))
   \<and> \<not> assessRisk (newHealthMetrics host0 regularCheckup)"
  using assessRisk_thresholds
          [of "newHealthMetrics host0 (regularCheckup\<lparr>hmb_bloodPressureSystolic := Some 150\<rparr>)"]
        assessRisk_thresholds [of "newHealthMetrics host0 regularCheckup"]
  by (simp add: newHealthMetrics_def regularCheckup_def emptyMetricsBody_def)

section \<open>Recording metrics, version 1.0.0\<close>

lemma assessRisk_flag [simp]:
  "assessRisk (m\<lparr>hm_isFlaggedForReview := f\<rparr>) = assessRisk m"
  by (simp add: assessRisk_def)

lemma post_health_metrics_accepted:
  "fst (post_health_metrics h body w) = Json json \<Longrightarrow> validateHealthMetrics body = None"
  by (cases "validateHealthMetrics body") (simp_all add: post_health_metrics_def)

lemma post_health_metrics_json:
  "fst (post_health_metrics h body w) = Json json \<Longrightarrow>
   sm_metrics json = (newHealthMetrics h body)
      \<lparr>hm_isFlaggedForReview :=
         assessRisk (newHealthMetrics h body) \<or> hm_isFlaggedForReview (newHealthMetrics h body)\<rparr>"
  by (cases "validateHealthMetrics body")
     (auto simp add: post_health_metrics_def Let_def serializeMetrics_def
       split: option.splits sum.splits if_splits)

lemma post_health_metrics_world:
  "validateHealthMetrics body = None \<Longrightarrow>
   snd (post_health_metrics h body w) =
     (let m0 = newHealthMetrics h body;
          m = m0\<lparr>hm_isFlaggedForReview := assessRisk m0 \<or> hm_isFlaggedForReview m0\<rparr>;
          w1 = (if assessRisk m0 then createHighRiskAlert h m w else w)
      in w1\<lparr>metricsStorage := (metricsStorage w1)(hm_id m \<mapsto> m)\<rparr>)"
  by (auto simp add: post_health_metrics_def Let_def split: sum.splits)

text \<open>What the stored flag is, for every accepted body: the assessment, or the body's own
  \<^verbatim>\<open>isFlaggedForReview\<close>.\<close>

lemma post_health_metrics_flag:
  "fst (post_health_metrics h body w) = Json json \<Longrightarrow>
   hm_isFlaggedForReview (sm_metrics json)
     = (assessRisk (sm_metrics json) \<or> hmb_isFlaggedForReview body = Some True)"
proof -
  assume accepted: "fst (post_health_metrics h body w) = Json json"
  have "hm_isFlaggedForReview (newHealthMetrics h body) = (hmb_isFlaggedForReview body = Some True)"
    by (simp add: newHealthMetrics_def spread_def split: option.split)
  then show ?thesis
    by (simp add: post_health_metrics_json [OF accepted])
qed

text \<open>
  Claim C2. For every metrics input accepted by \<^verbatim>\<open>POST /health-metrics\<close>, the stored record
  has \<open>isFlaggedForReview = true\<close> if and only if \<open>assessRisk\<close> of that record returns
  high-risk, whatever the input supplies for \<open>isFlaggedForReview\<close>. The handler spreads
  the body over its default \<open>false\<close>: the README's regular check-up (120/80, sugar 95,
  hemoglobin 12), sent with \<open>isFlaggedForReview: true\<close>, is accepted and stored with the
  flag set although its assessment is normal.
\<close>

theorem recordMetrics_flag_follows_body:
  "fst (post_health_metrics host0 (regularCheckup\<lparr>hmb_isFlaggedForReview := Some True\<rparr>) world0)
     = Json \<lparr>sm_metrics =
               newHealthMetrics host0 (regularCheckup\<lparr>hmb_isFlaggedForReview := Some True\<rparr>),
             sm_recordedAt = ISO 1700000000000\<rparr>
   \<and> map_option hm_isFlaggedForReview
        (metricsStorage (snd (post_health_metrics host0
            (regularCheckup\<lparr>hmb_isFlaggedForReview := Some True\<rparr>) world0)) ''uuid-0'')
       = Some True
   \<and> map_option assessRisk
        (metricsStorage (snd (post_health_metrics host0
            (regularCheckup\<lparr>hmb_isFlaggedForReview := Some True\<rparr>) world0)) ''uuid-0'')
       = Some False"
proof -
  let ?body = "regularCheckup\<lparr>hmb_isFlaggedForReview := Some True\<rparr>"
  have risk: "\<not> assessRisk (newHealthMetrics host0 ?body)"
    by (simp add: assessRisk_def newHealthMetrics_def js_ge_def js_gt_def js_lt_def
        regularCheckup_def emptyMetricsBody_def)
  have valid: "validateHealthMetrics ?body = None"
    by (simp add: validateHealthMetrics_def truthy_number_def js_lt_def js_gt_def
        regularCheckup_def emptyMetricsBody_def)
  have fields: "hm_recordedAt (newHealthMetrics host0 ?body) = 1700000000000000000"
    "hm_id (newHealthMetrics host0 ?body) = ''uuid-0''"
    "hm_isFlaggedForReview (newHealthMetrics host0 ?body)"
    by (simp_all add: newHealthMetrics_def spread_def host0_def regularCheckup_def
        emptyMetricsBody_def)
  show ?thesis
    by (simp add: post_health_metrics_def valid risk Let_def serializeMetrics_def fields
        displayTime_clock0)
qed

text \<open>
  Claim C3. For every metrics input accepted by \<^verbatim>\<open>POST /health-metrics\<close> whose assessment
  is high-risk, exactly one alert is inserted into the alert collection, under the
  identifier the generator produced for it, with severity HIGH, the fixed recommended
  action, \<open>resolved = false\<close>, \<open>resolvedAt = null\<close>, escalation level 1, the
  \<open>maternalProfileId\<close> of the input, and as \<open>providerId\<close> the input's \<open>recordedById\<close>, the
  provider who recorded the metrics; for a normal assessment the alert collection is
  unchanged. \<open>sm_metrics json\<close> is the record that is stored and returned: it has the
  input's profile, provider and measurements, so its assessment is the input's.
\<close>

theorem high_risk_metrics_create_one_alert:
  assumes "fst (post_health_metrics h body w) = Json json"
  shows "metricsStorage (snd (post_health_metrics h body w)) (hm_id (sm_metrics json))
           = Some (sm_metrics json)
    \<and> hm_maternalProfileId (sm_metrics json) = hmb_maternalProfileId body
    \<and> hm_recordedById (sm_metrics json) = hmb_recordedById body
    \<and> hm_bloodPressureSystolic (sm_metrics json) = hmb_bloodPressureSystolic body
    \<and> hm_bloodPressureDiastolic (sm_metrics json) = hmb_bloodPressureDiastolic body
    \<and> hm_bloodSugar (sm_metrics json) = hmb_bloodSugar body
    \<and> hm_hemoglobinLevels (sm_metrics json) = hmb_hemoglobinLevels body
    \<and> (if assessRisk (sm_metrics json)
       then \<exists>alert.
              alertStorage (snd (post_health_metrics h body w))
                = (alertStorage w)(uuidv4 h 1 \<mapsto> alert)
              \<and> dom (alertStorage (snd (post_health_metrics h body w)))
                = insert (uuidv4 h 1) (dom (alertStorage w))
              \<and> ha_id alert = uuidv4 h 1
              \<and> ha_severity alert = HIGH
              \<and> ha_recommendedAction alert = ''Immediate medical review required''
              \<and> \<not> ha_resolved alert
              \<and> ha_resolvedAt alert = None
              \<and> ha_escalationLevel alert = 1
              \<and> ha_maternalProfileId alert = hm_maternalProfileId (sm_metrics json)
              \<and> ha_providerId alert = hm_recordedById (sm_metrics json)
              \<and> ha_maternalProfileId alert = hmb_maternalProfileId body
              \<and> ha_providerId alert = hmb_recordedById body
       else alertStorage (snd (post_health_metrics h body w)) = alertStorage w)"
proof -
  have v: "validateHealthMetrics body = None"
    using assms by (rule post_health_metrics_accepted)
  note j = post_health_metrics_json [OF assms]
  note w' = post_health_metrics_world [OF v, of h w]
  have body: "hm_maternalProfileId (newHealthMetrics h body) = hmb_maternalProfileId body"
    "hm_recordedById (newHealthMetrics h body) = hmb_recordedById body"
    "hm_bloodPressureSystolic (newHealthMetrics h body) = hmb_bloodPressureSystolic body"
    "hm_bloodPressureDiastolic (newHealthMetrics h body) = hmb_bloodPressureDiastolic body"
    "hm_bloodSugar (newHealthMetrics h body) = hmb_bloodSugar body"
    "hm_hemoglobinLevels (newHealthMetrics h body) = hmb_hemoglobinLevels body"
    by (simp_all add: newHealthMetrics_def)
  show ?thesis
  proof (cases "assessRisk (newHealthMetrics h body)")
    case True
    then show ?thesis
      by (simp add: j w' body Let_def createHighRiskAlert_def)
         (intro exI conjI, rule refl, simp_all)
  next
    case False
    then show ?thesis
      by (simp add: j w' body Let_def)
  qed
qed

text \<open>The check-up of the README with a systolic pressure of 150, recorded by
  \<open>provider-123\<close> for \<open>profile-123\<close>: the alert that is stored names both.\<close>

theorem high_risk_metrics_create_one_alert_witness:
  "fst (post_health_metrics host0 (regularCheckup\<lparr>hmb_bloodPressureSystolic := Some 150\<rparr>) world0)
     = Json \<lparr>sm_metrics =
               (newHealthMetrics host0 (regularCheckup\<lparr>hmb_bloodPressureSystolic := Some 150\<rparr>))
                 \<lparr>hm_isFlaggedForReview := True\<rparr>,
             sm_recordedAt = ISO 1700000000000\<rparr>
   \<and> dom (alertStorage (snd (post_health_metrics host0
                (regularCheckup\<lparr>hmb_bloodPressureSystolic := Some 150\<rparr>) world0)))
     = {''uuid-1''}
   \<and> alertStorage (snd (post_health_metrics host0
                (regularCheckup\<lparr>hmb_bloodPressureSystolic := Some 150\<rparr>) world0)) ''uuid-1''
     = Some \<lparr>ha_id = ''uuid-1'',
              ha_maternalProfileId = Some ''profile-123'',
              ha_createdAt = 1700000000000000000,
              ha_severity = HIGH,
              ha_description = ''Abnormal health metrics detected'',
              ha_recommendedAction = ''Immediate medical review required'',
              ha_resolved = False,
              ha_resolvedAt = None,
              ha_providerId = Some ''provider-123'',
              ha_resolutionNotes = None,
              ha_escalationLevel = 1\<rparr>"
proof -
  let ?body = "regularCheckup\<lparr>hmb_bloodPressureSystolic := Some 150\<rparr>"
  let ?json = "\<lparr>sm_metrics = (newHealthMetrics host0 ?body)\<lparr>hm_isFlaggedForReview := True\<rparr>,
                sm_recordedAt = ISO 1700000000000\<rparr>"
  let ?w' = "snd (post_health_metrics host0 ?body world0)"
  have risk: "assessRisk (newHealthMetrics host0 ?body)"
    by (simp add: assessRisk_def newHealthMetrics_def js_ge_def regularCheckup_def
        emptyMetricsBody_def)
  have valid: "validateHealthMetrics ?body = None"
    by (simp add: validateHealthMetrics_def truthy_number_def js_lt_def js_gt_def
        regularCheckup_def emptyMetricsBody_def)
  have time: "hm_recordedAt (newHealthMetrics host0 ?body) = 1700000000000000000"
    by (simp add: newHealthMetrics_def spread_def host0_def regularCheckup_def
        emptyMetricsBody_def)
  have accepted: "fst (post_health_metrics host0 ?body world0) = Json ?json"
    by (simp add: post_health_metrics_def valid risk Let_def serializeMetrics_def time
        displayTime_clock0)
  have host: "uuidv4 host0 1 = ''uuid-1''" "ic_time host0 1 = 1700000000000000000"
    and empty: "alertStorage world0 = Map.empty"
    and body: "hmb_maternalProfileId ?body = Some ''profile-123''"
      "hmb_recordedById ?body = Some ''provider-123''"
    by (simp_all add: host0_def world0_def regularCheckup_def emptyMetricsBody_def)
  from high_risk_metrics_create_one_alert [OF accepted] risk
  obtain alert where alert:
    "alertStorage ?w' = (alertStorage world0)(uuidv4 host0 1 \<mapsto> alert)"
    "dom (alertStorage ?w') = insert (uuidv4 host0 1) (dom (alertStorage world0))"
    "ha_maternalProfileId alert = hmb_maternalProfileId ?body"
    "ha_providerId alert = hmb_recordedById ?body"
    by auto
  have second: "uuidv4 host0 (Suc 0) = ''uuid-1''" "ic_time host0 (Suc 0) = 1700000000000000000"
    by (simp_all add: host0_def)
  have fields: "hm_maternalProfileId (newHealthMetrics host0 ?body) = Some ''profile-123''"
    "hm_recordedById (newHealthMetrics host0 ?body) = Some ''provider-123''"
    by (simp_all add: newHealthMetrics_def regularCheckup_def emptyMetricsBody_def)
  have stored: "alertStorage ?w' ''uuid-1''
      = Some \<lparr>ha_id = ''uuid-1'', ha_maternalProfileId = Some ''profile-123'',
               ha_createdAt = 1700000000000000000, ha_severity = HIGH,
               ha_description = ''Abnormal health metrics detected'',
               ha_recommendedAction = ''Immediate medical review required'',
               ha_resolved = False, ha_resolvedAt = None,
               ha_providerId = Some ''provider-123'', ha_resolutionNotes = None,
               ha_escalationLevel = 1\<rparr>"
    by (simp add: post_health_metrics_world [OF valid] risk Let_def createHighRiskAlert_def
        second fields)
  from accepted alert(2) stored show ?thesis
    by (simp add: second empty)
qed

section \<open>The time layer: rounding is monotone, stored timestamps can be displayed\<close>

lemma pow2_powi: "pow2 e = 2 powi e"
  by (simp add: pow2_def power_int_def inverse_eq_divide power_one_over)

lemma pow2_pos: "0 < pow2 e"
  by (simp add: pow2_powi)

lemma pow2_add: "pow2 (a + b) = pow2 a * pow2 b"
  by (simp add: pow2_powi power_int_add)

lemma pow2_nat: "0 \<le> e \<Longrightarrow> pow2 e = 2 ^ nat e"
  by (simp add: pow2_def)

lemma pow2_mono: "a \<le> b \<Longrightarrow> pow2 a \<le> pow2 b"
  by (simp add: pow2_powi power_int_increasing)

lemma pow2_less_cancel: "pow2 a < pow2 b \<Longrightarrow> a < b"
  using pow2_mono [of b a] by (cases "a < b") auto

lemma ilog2_bounds:
  "1 \<le> n \<Longrightarrow> 0 \<le> ilog2 n \<and> 2 ^ nat (ilog2 n) \<le> n \<and> n < 2 ^ nat (ilog2 n + 1)"
proof (induction n rule: ilog2.induct)
  case (1 n)
  show ?case
  proof (cases "n < 2")
    case True
    with "1.prems" have "n = 1" by simp
    then show ?thesis by (subst (1 2 3) ilog2.simps) simp
  next
    case False
    then have h: "1 \<le> n div 2" by simp
    from "1.IH" [OF False h]
    have ih: "0 \<le> ilog2 (n div 2)" "2 ^ nat (ilog2 (n div 2)) \<le> n div 2"
      "n div 2 < 2 ^ nat (ilog2 (n div 2) + 1)"
      by simp_all
    have eq: "ilog2 n = 1 + ilog2 (n div 2)"
      using False by (subst ilog2.simps) simp
    have n1: "nat (1 + ilog2 (n div 2)) = Suc (nat (ilog2 (n div 2)))"
      using ih(1) by simp
    have n2: "nat (1 + ilog2 (n div 2) + 1) = Suc (Suc (nat (ilog2 (n div 2))))"
      using ih(1) by simp
    have n3: "nat (ilog2 (n div 2) + 1) = Suc (nat (ilog2 (n div 2)))"
      using ih(1) by simp
    have "2 * 2 ^ nat (ilog2 (n div 2)) \<le> n"
      using ih(2) by linarith
    moreover have "n < 2 * (2 * 2 ^ nat (ilog2 (n div 2)))"
      using ih(3) unfolding n3 by simp
    ultimately show ?thesis
      using ih(1) unfolding eq n1 n2 by simp
  qed
qed


lemma int_pow2_bounds:
  assumes "0 \<le> e"
  shows "2 ^ nat e \<le> n \<Longrightarrow> pow2 e \<le> of_int n"
    and "n < 2 ^ nat e \<Longrightarrow> of_int n < pow2 e"
proof -
  have p: "pow2 e = of_int (2 ^ nat e)"
    using assms by (simp add: pow2_nat)
  show "2 ^ nat e \<le> n \<Longrightarrow> pow2 e \<le> of_int n"
    unfolding p by (simp only: of_int_le_iff)
  show "n < 2 ^ nat e \<Longrightarrow> of_int n < pow2 e"
    unfolding p by (simp only: of_int_less_iff)
qed

lemma quotient_of_pos:
  assumes "0 < x" and "quotient_of x = (a, b)"
  shows "1 \<le> a" and "1 \<le> b" and "x = of_int a / of_int b"
proof -
  from assms(2) have b: "0 < b" by (rule quotient_of_denom_pos)
  from assms(2) show x: "x = of_int a / of_int b" by (rule quotient_of_div)
  from b show "1 \<le> b" by simp
  from assms(1) x b have "0 < (of_int a :: rat)"
    by (simp add: zero_less_divide_iff)
  then show "1 \<le> a" by simp
qed

lemma exponent_of_bounds:
  assumes "0 < x"
  shows "pow2 (exponent_of x) \<le> x" and "x < pow2 (exponent_of x + 1)"
proof -
  obtain a b where q: "quotient_of x = (a, b)" by (cases "quotient_of x")
  note ab = quotient_of_pos [OF assms q]
  define la where "la = ilog2 a"
  define lb where "lb = ilog2 b"
  from ilog2_bounds [OF ab(1)] have a: "0 \<le> la" "2 ^ nat la \<le> a" "a < 2 ^ nat (la + 1)"
    by (simp_all add: la_def)
  from ilog2_bounds [OF ab(2)] have b: "0 \<le> lb" "2 ^ nat lb \<le> b" "b < 2 ^ nat (lb + 1)"
    by (simp_all add: lb_def)
  have ra: "pow2 la \<le> of_int a" "of_int a < pow2 (la + 1)"
    using a by (simp_all add: int_pow2_bounds)
  have rb: "pow2 lb \<le> of_int b" "of_int b < pow2 (lb + 1)"
    using b by (simp_all add: int_pow2_bounds)
  have bpos: "0 < (of_int b :: rat)" using ab(2) by simp
  have e: "exponent_of x = (if x < pow2 (la - lb) then la - lb - 1 else la - lb)"
    by (simp add: exponent_of_def q la_def lb_def Let_def)
  have low: "pow2 (la - lb - 1) \<le> x"
  proof -
    have "pow2 (la - lb - 1) * of_int b \<le> pow2 (la - lb - 1) * pow2 (lb + 1)"
      using rb(2) pow2_pos [of "la - lb - 1"] by (simp add: less_imp_le)
    also have "\<dots> = pow2 la"
      by (simp add: pow2_add [symmetric])
    also have "\<dots> \<le> of_int a" by (rule ra(1))
    finally show ?thesis
      using bpos by (simp add: ab(3) pos_le_divide_eq)
  qed
  have high: "x < pow2 (la - lb + 1)"
  proof -
    have "of_int a < pow2 (la + 1)" by (rule ra(2))
    also have "\<dots> = pow2 (la - lb + 1) * pow2 lb"
      by (simp add: pow2_add [symmetric])
    also have "\<dots> \<le> pow2 (la - lb + 1) * of_int b"
      using rb(1) pow2_pos [of "la - lb + 1"] by simp
    finally show ?thesis
      using bpos by (simp add: ab(3) pos_divide_less_eq)
  qed
  show "pow2 (exponent_of x) \<le> x"
    using low by (simp add: e)
  show "x < pow2 (exponent_of x + 1)"
    using high by (simp add: e)
qed

lemma exponent_of_mono:
  assumes "0 < x" and "x \<le> y"
  shows "exponent_of x \<le> exponent_of y"
proof -
  have "pow2 (exponent_of x) \<le> x" using assms(1) by (rule exponent_of_bounds)
  also note assms(2)
  also have "y < pow2 (exponent_of y + 1)" using assms by (intro exponent_of_bounds) simp
  finally have "exponent_of x < exponent_of y + 1" by (rule pow2_less_cancel)
  then show ?thesis by simp
qed

lemma round_half_even_of_int: "round_half_even (of_int n) = n"
  by (simp add: round_half_even_def)

lemma round_half_even_mono:
  assumes "a \<le> b"
  shows "round_half_even a \<le> round_half_even b"
proof -
  have fl: "\<lfloor>a\<rfloor> \<le> \<lfloor>b\<rfloor>" using assms by (rule floor_mono)
  have ub: "round_half_even a \<le> \<lfloor>a\<rfloor> + 1"
    by (simp add: round_half_even_def Let_def)
  have lb: "\<lfloor>b\<rfloor> \<le> round_half_even b"
    by (simp add: round_half_even_def Let_def)
  show ?thesis
  proof (cases "\<lfloor>a\<rfloor> < \<lfloor>b\<rfloor>")
    case True
    with ub lb show ?thesis by linarith
  next
    case False
    with fl have eq: "\<lfloor>a\<rfloor> = \<lfloor>b\<rfloor>" by simp
    have "a - of_int \<lfloor>b\<rfloor> \<le> b - of_int \<lfloor>b\<rfloor>" using assms by simp
    then show ?thesis
      by (auto simp add: round_half_even_def Let_def eq)
  qed
qed


lemma pow2_split:
  "pow2 e = 2 ^ 52 * pow2 (e - 52)" "pow2 (e + 1) = 2 ^ 53 * pow2 (e - 52)"
proof -
  have c: "pow2 52 = 2 ^ 52" "pow2 53 = 2 ^ 53"
    by (simp_all add: pow2_def)
  have "pow2 e = pow2 (52 + (e - 52))" by simp
  also have "\<dots> = pow2 52 * pow2 (e - 52)" by (rule pow2_add)
  finally show "pow2 e = 2 ^ 52 * pow2 (e - 52)" by (simp only: c)
  have "e + 1 = 53 + (e - 52)" by simp
  then have "pow2 (e + 1) = pow2 (53 + (e - 52))" by (rule arg_cong)
  also have "\<dots> = pow2 53 * pow2 (e - 52)" by (rule pow2_add)
  finally show "pow2 (e + 1) = 2 ^ 53 * pow2 (e - 52)" by (simp only: c)
qed

lemma to_double_pos:
  assumes "0 < x"
  shows "to_double x = of_int (round_half_even (x / pow2 (exponent_of x - 52)))
                          * pow2 (exponent_of x - 52)"
  using assms by (simp add: to_double_def Let_def)

lemma to_double_minus: "to_double (- x) = - to_double x"
  by (simp add: to_double_def Let_def)

lemma significand_bounds:
  assumes "0 < x"
  shows "2 ^ 52 \<le> round_half_even (x / pow2 (exponent_of x - 52))"
    and "round_half_even (x / pow2 (exponent_of x - 52)) \<le> 2 ^ 53"
proof -
  let ?e = "exponent_of x"
  let ?q = "pow2 (?e - 52)"
  have q: "0 < ?q" by (rule pow2_pos)
  note e = pow2_split [of ?e]
  have "2 ^ 52 * ?q \<le> x"
    using exponent_of_bounds(1) [OF assms] by (simp add: e)
  then have "of_int (2 ^ 52) \<le> x / ?q"
    using q by (simp add: pos_le_divide_eq)
  from round_half_even_mono [OF this]
  show "2 ^ 52 \<le> round_half_even (x / ?q)"
    by (simp only: round_half_even_of_int)
  have "x \<le> 2 ^ 53 * ?q"
    using exponent_of_bounds(2) [OF assms] by (simp add: e)
  then have "x / ?q \<le> of_int (2 ^ 53)"
    using q by (simp add: pos_divide_le_eq)
  from round_half_even_mono [OF this]
  show "round_half_even (x / ?q) \<le> 2 ^ 53"
    by (simp only: round_half_even_of_int)
qed

lemma to_double_pos_bounds:
  assumes "0 < x"
  shows "pow2 (exponent_of x) \<le> to_double x" and "to_double x \<le> pow2 (exponent_of x + 1)"
proof -
  let ?e = "exponent_of x"
  let ?q = "pow2 (?e - 52)"
  let ?m = "round_half_even (x / ?q)"
  have q: "0 < ?q" by (rule pow2_pos)
  note e = pow2_split [of ?e]
  have "(of_int (2 ^ 52) :: rat) \<le> of_int ?m"
    using significand_bounds(1) [OF assms] by (simp only: of_int_le_iff)
  then have "2 ^ 52 * ?q \<le> of_int ?m * ?q"
    using q by simp
  then show "pow2 ?e \<le> to_double x"
    by (simp add: to_double_pos [OF assms] e)
  have "(of_int ?m :: rat) \<le> of_int (2 ^ 53)"
    using significand_bounds(2) [OF assms] by (simp only: of_int_le_iff)
  then have "of_int ?m * ?q \<le> 2 ^ 53 * ?q"
    using q by simp
  then show "to_double x \<le> pow2 (?e + 1)"
    by (simp add: to_double_pos [OF assms] e)
qed

lemma to_double_mono_pos:
  assumes "0 < x" and "x \<le> y"
  shows "to_double x \<le> to_double y"
proof -
  have y: "0 < y" using assms by simp
  have le: "exponent_of x \<le> exponent_of y"
    using assms by (rule exponent_of_mono)
  show ?thesis
  proof (cases "exponent_of x = exponent_of y")
    case True
    let ?q = "pow2 (exponent_of y - 52)"
    have q: "0 < ?q" by (rule pow2_pos)
    then have "x / ?q \<le> y / ?q"
      using assms(2) by (simp add: divide_right_mono)
    then have "round_half_even (x / ?q) \<le> round_half_even (y / ?q)"
      by (rule round_half_even_mono)
    then have "(of_int (round_half_even (x / ?q)) :: rat) \<le> of_int (round_half_even (y / ?q))"
      by (simp only: of_int_le_iff)
    then show ?thesis
      using q by (simp add: to_double_pos [OF assms(1)] to_double_pos [OF y] True)
  next
    case False
    with le have "exponent_of x + 1 \<le> exponent_of y" by simp
    then have "pow2 (exponent_of x + 1) \<le> pow2 (exponent_of y)"
      by (rule pow2_mono)
    with to_double_pos_bounds(2) [OF assms(1)] to_double_pos_bounds(1) [OF y]
    show ?thesis by linarith
  qed
qed

lemma to_double_zero: "to_double 0 = 0"
  by (simp add: to_double_def)

lemma to_double_pos_pos: "0 < x \<Longrightarrow> 0 < to_double x"
  using to_double_pos_bounds(1) [of x] pow2_pos [of "exponent_of x"] by linarith

lemma to_double_mono:
  assumes "x \<le> y"
  shows "to_double x \<le> to_double y"
proof -
  consider "0 < x" | "x = 0" "y = 0" | "x = 0" "0 < y" | "x < 0" "y < 0" | "x < 0" "y = 0"
    | "x < 0" "0 < y"
    using assms by linarith
  then show ?thesis
  proof cases
    case 1
    then show ?thesis using assms by (rule to_double_mono_pos)
  next
    case 2
    then show ?thesis by simp
  next
    case 3
    then show ?thesis using to_double_pos_pos [of y] by (simp add: to_double_zero)
  next
    case 4
    then have "0 < - y" "- y \<le> - x" using assms by simp_all
    then have "to_double (- y) \<le> to_double (- x)" by (rule to_double_mono_pos)
    then show ?thesis by (simp add: to_double_minus)
  next
    case 5
    then have "0 < to_double (- x)" by (intro to_double_pos_pos) simp
    with 5 show ?thesis by (simp add: to_double_minus to_double_zero)
  next
    case 6
    then have "0 < to_double (- x)" "0 < to_double y" by (simp_all add: to_double_pos_pos)
    then show ?thesis by (simp add: to_double_minus)
  qed
qed


lemma exponent_of_nonneg:
  assumes "1 \<le> x"
  shows "0 \<le> exponent_of x"
proof -
  have "pow2 0 \<le> x" using assms by (simp add: pow2_def)
  also have "x < pow2 (exponent_of x + 1)"
    using assms by (intro exponent_of_bounds) simp
  finally have "0 < exponent_of x + 1" by (rule pow2_less_cancel)
  then show ?thesis by simp
qed

lemma to_double_of_int_pos:
  assumes "0 < n"
  shows "\<exists>k. to_double (of_int n) = of_int k"
proof -
  let ?x = "of_int n :: rat"
  let ?e = "exponent_of ?x"
  have x: "0 < ?x" "1 \<le> ?x" using assms by simp_all
  have e: "0 \<le> ?e" using x(2) by (rule exponent_of_nonneg)
  show ?thesis
  proof (cases "52 \<le> ?e")
    case True
    then have "pow2 (?e - 52) = of_int (2 ^ nat (?e - 52))"
      by (simp add: pow2_nat)
    then have "to_double ?x
        = of_int (round_half_even (?x / pow2 (?e - 52)) * 2 ^ nat (?e - 52))"
      by (simp add: to_double_pos [OF x(1)])
    then show ?thesis ..
  next
    case False
    then have s: "0 \<le> 52 - ?e" by simp
    have "pow2 (52 - ?e) * pow2 (?e - 52) = 1"
      by (simp add: pow2_add [symmetric] pow2_def)
    then have inv: "1 / pow2 (?e - 52) = pow2 (52 - ?e)"
      using pow2_pos [of "?e - 52"] by (simp add: field_simps)
    have "?x / pow2 (?e - 52) = ?x * (1 / pow2 (?e - 52))" by simp
    also have "\<dots> = of_int (n * 2 ^ nat (52 - ?e))"
      by (simp add: inv pow2_nat [OF s])
    finally have m: "round_half_even (?x / pow2 (?e - 52)) = n * 2 ^ nat (52 - ?e)"
      by (simp only: round_half_even_of_int)
    have "to_double ?x = ?x * (pow2 (52 - ?e) * pow2 (?e - 52))"
      by (simp add: to_double_pos [OF x(1)] m pow2_nat [OF s])
    also have "\<dots> = ?x"
      by (simp add: pow2_add [symmetric] pow2_def)
    finally show ?thesis ..
  qed
qed

lemma to_double_of_int: "\<exists>k. to_double (of_int n) = of_int k"
proof -
  consider "n = 0" | "0 < n" | "0 < - n" by linarith
  then show ?thesis
  proof cases
    case 1
    then have "to_double (of_int n) = of_int 0" by (simp add: to_double_zero)
    then show ?thesis ..
  next
    case 2
    then show ?thesis by (rule to_double_of_int_pos)
  next
    case 3
    from to_double_of_int_pos [OF this] obtain k where "to_double (of_int (- n)) = of_int k" ..
    then have "to_double (of_int n) = of_int (- k)"
      by (simp add: to_double_minus)
    then show ?thesis ..
  qed
qed

lemma to_double_max_time: "to_double 8640000000000000 = 8640000000000000"
  by code_simp

lemma to_double_max_nanos: "to_double 8640000000000000000000 = 8640000000000000000000"
  by code_simp

lemma to_double_bounded:
  assumes "to_double c = c" and "\<bar>x\<bar> \<le> c"
  shows "\<bar>to_double x\<bar> \<le> c"
proof -
  from assms(2) have "x \<le> c" "- c \<le> x" by simp_all
  then have "to_double x \<le> to_double c" "to_double (- c) \<le> to_double x"
    by (simp_all add: to_double_mono)
  then show ?thesis
    by (simp add: to_double_minus assms(1) abs_le_iff)
qed

lemma displayTime_defined:
  assumes "\<bar>t\<bar> \<le> 8640000000000000000000"
  shows "\<exists>iso. displayTime t = Some iso"
proof -
  have "\<bar>of_int t :: rat\<bar> \<le> 8640000000000000000000"
    using assms by (simp flip: of_int_abs add: of_int_le_numeral_iff)
  with to_double_max_nanos have "\<bar>Number t\<bar> \<le> 8640000000000000000000"
    unfolding Number_def by (rule to_double_bounded)
  then have "\<bar>Number t / 1000000\<bar> \<le> 8640000000000000"
    by simp
  with to_double_max_time have "\<bar>to_double (Number t / 1000000)\<bar> \<le> 8640000000000000"
    by (rule to_double_bounded)
  then show ?thesis
    by (simp add: displayTime_def TimeClip_def toISOString_def)
qed

lemma storeTime_defined:
  assumes "\<bar>ms\<bar> \<le> 8640000000000000"
  shows "\<exists>d. storeTime (Some ms) = Some d \<and> \<bar>d\<bar> \<le> 8640000000000000000000"
proof -
  obtain k where k: "to_double (of_int (ms * 1000000)) = of_int k"
    using to_double_of_int ..
  have "\<bar>of_int (ms * 1000000) :: rat\<bar> \<le> 8640000000000000000000"
    using assms by (simp flip: of_int_abs add: of_int_le_numeral_iff abs_mult)
  with to_double_max_nanos have "\<bar>to_double (of_int (ms * 1000000))\<bar> \<le> 8640000000000000000000"
    by (rule to_double_bounded)
  then have "\<bar>k\<bar> \<le> 8640000000000000000000"
    unfolding k by (simp flip: of_int_abs add: of_int_le_numeral_iff)
  moreover have "storeTime (Some ms) = Some k"
    using k by (simp add: storeTime_def BigInt_def)
  ultimately show ?thesis by simp
qed

lemma getTime_range: "getTime h d = Some ms \<Longrightarrow> \<bar>ms\<bar> \<le> 8640000000000000"
  by (auto simp add: getTime_def split: option.splits if_splits)

text \<open>
  Claim C8. For every date \<open>D\<close> with millisecond resolution, storing it as
  \<open>milliseconds(D) \<times> 1_000_000\<close> nanoseconds and displaying it by dividing by \<open>1_000_000\<close>
  and rendering ISO-8601 gives \<open>D\<close> back exactly. The display divides doubles:
  \<^verbatim>\<open>Number(t) / 1_000_000\<close>. For \<open>D\<close> = 2023-11-14T22:13:20.002Z, time value
  \<open>1700000000002\<close>, the stored \<open>1700000000002000000\<close> lies halfway between two doubles and
  is rounded to \<open>1700000000001999872\<close> (by the multiplication of version 1.0.0, or by
  \<^verbatim>\<open>Number\<close> applied to the exact bigint of version 1.1.0); the quotient is rounded to a
  double just below \<open>1700000000002\<close>, and \<^verbatim>\<open>new Date\<close> cuts the fraction off: the date
  displayed is 2023-11-14T22:13:20.001Z.
\<close>

theorem displayTime_loses_a_millisecond:
  "getTime (host0\<lparr>Date_parse := (\<lambda>s. Some 1700000000002)\<rparr>) (Some ''2023-11-14T22:13:20.002Z'')
     = Some 1700000000002
   \<and> storeTime (Some 1700000000002) = Some 1700000000001999872
   \<and> displayTime 1700000000001999872 = Some (ISO 1700000000001)
   \<and> displayTime (1700000000002 * NANOS_PER_MILLISECOND) = Some (ISO 1700000000001)"
  by (intro conjI) (simp add: getTime_def, code_simp, code_simp, code_simp)

section \<open>Validation of metrics\<close>

text \<open>What \<open>validateHealthMetrics\<close> rejects: a value that is present, not zero, and out
  of its range. Version 1.1.0 has no rule for blood sugar.\<close>

lemma validateHealthMetrics_rejects_iff:
  "validateHealthMetrics b \<noteq> None \<longleftrightarrow>
     (\<exists>v. hmb_bloodPressureSystolic b = Some v \<and> v \<noteq> 0 \<and> (v < 70 \<or> 190 < v))
     \<or> (\<exists>v. hmb_bloodPressureDiastolic b = Some v \<and> v \<noteq> 0 \<and> (v < 40 \<or> 120 < v))
     \<or> (\<exists>v. hmb_bloodSugar b = Some v \<and> v \<noteq> 0 \<and> (v < 30 \<or> 500 < v))"
  by (auto simp add: validateHealthMetrics_def truthy_number_def js_gt_def js_lt_def
      split: option.splits)

lemma validateHealthMetrics_v11_blood_sugar:
  "validateHealthMetrics_v11 (regularCheckup\<lparr>hmb_bloodSugar := Some 900\<rparr>) = None"
  by (simp add: validateHealthMetrics_v11_def truthy_number_def js_lt_def js_gt_def
      regularCheckup_def emptyMetricsBody_def)

text \<open>
  Claim C7. \<open>validateHealthMetrics\<close> rejects an input if and only if a present systolic
  pressure lies outside [70,190], or a present diastolic pressure outside [40,120], or a
  present blood sugar outside [30,500]; an omitted field is never a cause of rejection, and
  every present value out of range, zero included, is rejected with the reason of its
  field. The guards test the value's truthiness for its presence, so a zero is taken for
  an omitted field: the README's check-up with a systolic pressure of \<open>0\<close> is accepted.
\<close>

theorem validateHealthMetrics_accepts_zero:
  "validateHealthMetrics (regularCheckup\<lparr>hmb_bloodPressureSystolic := Some 0\<rparr>) = None"
  by (simp add: validateHealthMetrics_def truthy_number_def js_lt_def js_gt_def
      regularCheckup_def emptyMetricsBody_def)

section \<open>Creating profiles\<close>

lemma getTime_due0: "getTime host0 (Some ''2024-12-25'') = Some 1735084800000"
  by (simp add: getTime_def host0_def)

lemma displayTime_out_of_range: "displayTime 10000000000000000000000 = None"
  by code_simp

lemma provider_janeDoe:
  "storage_get (providerStorage world0) (Some ''provider-123'') = Returned (Some provider123)"
  "hp_isActive provider123"
  by (simp_all add: storage_get_def world0_def provider123_def)

lemma spread_range:
  assumes "\<bar>d\<bar> \<le> c" and "\<forall>t. v = Some t \<longrightarrow> \<bar>t\<bar> \<le> c"
  shows "\<bar>spread d v\<bar> \<le> c"
  using assms by (cases v) (simp_all add: spread_def)

lemma serializeProfile_defined:
  assumes "\<bar>mp_dueDate p\<bar> \<le> 8640000000000000000000"
    and "\<bar>mp_createdAt p\<bar> \<le> 8640000000000000000000"
    and "\<bar>mp_lastUpdated p\<bar> \<le> 8640000000000000000000"
  shows "\<exists>json. serializeProfile p = Inr json \<and> sp_profile json = p"
proof -
  from assms(1) obtain d where d: "displayTime (mp_dueDate p) = Some d"
    using displayTime_defined by blast
  from assms(2) obtain c where c: "displayTime (mp_createdAt p) = Some c"
    using displayTime_defined by blast
  from assms(3) obtain l where l: "displayTime (mp_lastUpdated p) = Some l"
    using displayTime_defined by blast
  show ?thesis
    by (simp add: serializeProfile_def d c l)
qed

text \<open>The identifier under which an accepted profile is stored: the body's, if it has
  one.\<close>

lemma post_maternal_profiles_stored_id:
  "fst (post_maternal_profiles h body w) = Json json \<Longrightarrow>
   mp_id (sp_profile json) = spread (uuidv4 h 0) (mpb_id body)
   \<and> maternalProfileStorage (snd (post_maternal_profiles h body w)) (mp_id (sp_profile json))
       = Some (sp_profile json)"
  by (auto simp add: post_maternal_profiles_def Let_def serializeProfile_def newMaternalProfile_def
      split: option.splits sum.splits if_splits outcome.splits)




text \<open>A valid body without \<open>primaryCareProviderId\<close> references no provider: the lookup
  throws and the answer is 500, with nothing written.\<close>

lemma post_maternal_profiles_no_provider_id:
  "validateProfile body = None \<Longrightarrow> mpb_primaryCareProviderId body = None \<Longrightarrow>
   post_maternal_profiles h body w = (Error 500 ''Internal server error'', w)"
  by (simp add: post_maternal_profiles_def storage_get_def)

text \<open>What version 1.0.0 does for a valid input that references an active provider, when
  the timestamps that reach the profile can be displayed (at most \<open>8.64 \<times> 10\<^sup>2\<^sup>1\<close>
  nanoseconds in magnitude, as every value of the 64-bit clock is): the profile is stored
  and returned, with risk level LOW and trimester FIRST unless the input has its own.\<close>

lemma createProfile_defaults:
  assumes valid: "validateProfile body = None"
    and due: "getTime h (mpb_dueDate body) = Some ms"
    and provider: "storage_get (providerStorage w) (mpb_primaryCareProviderId body)
        = Returned (Some provider)"
    and active: "hp_isActive provider"
    and created: "\<forall>t. mpb_createdAt body = Some t \<longrightarrow> \<bar>t\<bar> \<le> 8640000000000000000000"
    and updated: "\<forall>t. mpb_lastUpdated body = Some t \<longrightarrow> \<bar>t\<bar> \<le> 8640000000000000000000"
    and clock: "\<forall>k. 0 \<le> ic_time h k \<and> ic_time h k < 2 ^ 64"
  shows "\<exists>json.
           post_maternal_profiles h body w
             = (Json json,
                w\<lparr>maternalProfileStorage :=
                    (maternalProfileStorage w)(mp_id (sp_profile json) \<mapsto> sp_profile json)\<rparr>)
           \<and> (mpb_riskLevel body = None \<longrightarrow> mp_riskLevel (sp_profile json) = Some LOW)
           \<and> (mpb_currentTrimester body = None \<longrightarrow>
                mp_currentTrimester (sp_profile json) = Some FIRST)"
proof -
  from getTime_range [OF due] obtain d
    where d: "storeTime (Some ms) = Some d" "\<bar>d\<bar> \<le> 8640000000000000000000"
    using storeTime_defined by blast
  let ?p = "newMaternalProfile h body d"
  have t: "\<bar>ic_time h k\<bar> \<le> 8640000000000000000000" for k
    using clock [rule_format, of k] by simp
  have "\<bar>mp_dueDate ?p\<bar> \<le> 8640000000000000000000"
    using d(2) by (simp add: newMaternalProfile_def)
  moreover have "\<bar>mp_createdAt ?p\<bar> \<le> 8640000000000000000000"
    using spread_range [OF t created] by (simp add: newMaternalProfile_def)
  moreover have "\<bar>mp_lastUpdated ?p\<bar> \<le> 8640000000000000000000"
    using spread_range [OF t updated] by (simp add: newMaternalProfile_def)
  ultimately obtain json where json: "serializeProfile ?p = Inr json" "sp_profile json = ?p"
    using serializeProfile_defined by blast
  have "post_maternal_profiles h body w
      = (Json json, w\<lparr>maternalProfileStorage := (maternalProfileStorage w)(mp_id ?p \<mapsto> ?p)\<rparr>)"
    by (simp add: post_maternal_profiles_def valid provider active due d(1) Let_def json(1))
  moreover have "mpb_riskLevel body = None \<longrightarrow> mp_riskLevel ?p = Some LOW"
    by (simp add: newMaternalProfile_def spread_def)
  moreover have "mpb_currentTrimester body = None \<longrightarrow> mp_currentTrimester ?p = Some FIRST"
    by (simp add: newMaternalProfile_def spread_def)
  ultimately show ?thesis
    by (simp add: json(2))
qed

lemma validateProfile_ignores_createdAt:
  "validateProfile (body\<lparr>mpb_createdAt := t\<rparr>) = validateProfile body"
  by (simp add: validateProfile_def)

lemma createProfile_defaults_janeDoe:
  "\<exists>json.
     post_maternal_profiles host0 janeDoe world0
       = (Json json,
          world0\<lparr>maternalProfileStorage := [mp_id (sp_profile json) \<mapsto> sp_profile json]\<rparr>)
     \<and> mp_riskLevel (sp_profile json) = Some LOW
     \<and> mp_currentTrimester (sp_profile json) = Some FIRST"
proof -
  have body: "mpb_primaryCareProviderId janeDoe = Some ''provider-123''"
    "mpb_dueDate janeDoe = Some ''2024-12-25''"
    "mpb_createdAt janeDoe = None" "mpb_lastUpdated janeDoe = None"
    "mpb_riskLevel janeDoe = None" "mpb_currentTrimester janeDoe = None"
    by (simp_all add: janeDoe_def emptyProfileBody_def)
  have due: "getTime host0 (mpb_dueDate janeDoe) = Some 1735084800000"
    by (simp add: body getTime_due0)
  have provider: "storage_get (providerStorage world0) (mpb_primaryCareProviderId janeDoe)
      = Returned (Some provider123)"
    by (simp add: body provider_janeDoe)
  have clock: "\<forall>k. 0 \<le> ic_time host0 k \<and> ic_time host0 k < 2 ^ 64"
    by (simp add: host0_def)
  have empty: "maternalProfileStorage world0 = Map.empty"
    by (simp add: world0_def)
  from createProfile_defaults [OF validateProfile_janeDoe due provider provider_janeDoe(2) _ _ clock]
  show ?thesis
    by (simp add: body empty)
qed

text \<open>
  Claim C6. For every valid profile input referencing an active provider,
  \<^verbatim>\<open>POST /maternal-profiles\<close> succeeds, and the stored profile has risk level LOW and
  trimester FIRST when the input does not supply them. The handler writes
  \<^verbatim>\<open>createdAt: BigInt(ic.time())\<close> before \<^verbatim>\<open>...req.body\<close>: the README's body, which is
  valid (\<open>validateProfile_janeDoe\<close>, \<open>validateProfile_ignores_createdAt\<close>) and names the
  active \<open>provider-123\<close>, sent with a \<open>createdAt\<close> of \<open>10\<^sup>2\<^sup>2\<close>, keeps that timestamp; the
  profile is inserted, with its defaults, then \<open>serializeProfile\<close> throws on a date out
  of range and the answer is 500: the request fails after its write.
\<close>

theorem createProfile_unserializable_timestamp:
  "getTime host0 (mpb_dueDate (janeDoe\<lparr>mpb_createdAt := Some 10000000000000000000000\<rparr>))
       = Some 1735084800000
   \<and> storage_get (providerStorage world0)
        (mpb_primaryCareProviderId (janeDoe\<lparr>mpb_createdAt := Some 10000000000000000000000\<rparr>))
       = Returned (Some provider123)
   \<and> hp_isActive provider123
   \<and> fst (post_maternal_profiles host0
            (janeDoe\<lparr>mpb_createdAt := Some 10000000000000000000000\<rparr>) world0)
       = Error 500 ''Internal server error''
   \<and> maternalProfileStorage
        (snd (post_maternal_profiles host0
            (janeDoe\<lparr>mpb_createdAt := Some 10000000000000000000000\<rparr>) world0)) ''uuid-0''
       = Some (newMaternalProfile host0
                 (janeDoe\<lparr>mpb_createdAt := Some 10000000000000000000000\<rparr>)
                 1735084800000000000)
   \<and> mp_createdAt (newMaternalProfile host0
                 (janeDoe\<lparr>mpb_createdAt := Some 10000000000000000000000\<rparr>)
                 1735084800000000000)
       = 10000000000000000000000
   \<and> mp_riskLevel (newMaternalProfile host0
                 (janeDoe\<lparr>mpb_createdAt := Some 10000000000000000000000\<rparr>)
                 1735084800000000000)
       = Some LOW"
proof -
  let ?body = "janeDoe\<lparr>mpb_createdAt := Some 10000000000000000000000\<rparr>"
  have valid: "validateProfile ?body = None"
    by (simp add: validateProfile_ignores_createdAt validateProfile_janeDoe)
  have body: "mpb_primaryCareProviderId ?body = Some ''provider-123''"
    "mpb_dueDate ?body = Some ''2024-12-25''"
    by (simp_all add: janeDoe_def emptyProfileBody_def)
  have fields: "mp_id (newMaternalProfile host0 ?body d) = ''uuid-0''"
    "mp_dueDate (newMaternalProfile host0 ?body d) = d"
    "mp_createdAt (newMaternalProfile host0 ?body d) = 10000000000000000000000"
    "mp_riskLevel (newMaternalProfile host0 ?body d) = Some LOW" for d
    by (simp_all add: newMaternalProfile_def spread_def host0_def janeDoe_def
        emptyProfileBody_def)
  show ?thesis
    by (simp add: post_maternal_profiles_def valid body provider_janeDoe getTime_due0
        storeTime_due0 Let_def serializeProfile_def fields displayTime_due0
        displayTime_out_of_range)
qed

text \<open>
  Claim C9. For every input accepted by \<^verbatim>\<open>POST /maternal-profiles\<close> or
  \<^verbatim>\<open>POST /health-metrics\<close>, the identifier of the stored record is the fresh one of the
  identity generator; an \<open>id\<close> supplied by the client never becomes the stored record's
  identifier. Both handlers write \<^verbatim>\<open>id: uuidv4()\<close> before \<^verbatim>\<open>...req.body\<close>: the README's
  body, sent with \<open>id: "client-chosen"\<close>, is accepted and stored under \<open>client-chosen\<close>,
  and nothing is stored under the generated identifier.
\<close>

theorem createProfile_keeps_client_id:
  "fst (post_maternal_profiles host0 (janeDoe\<lparr>mpb_id := Some ''client-chosen''\<rparr>) world0)
     = Json \<lparr>sp_profile = newMaternalProfile host0 (janeDoe\<lparr>mpb_id := Some ''client-chosen''\<rparr>)
                             1735084800000000000,
             sp_dueDate = ISO 1735084800000,
             sp_createdAt = ISO 1700000000000,
             sp_lastUpdated = ISO 1700000000000\<rparr>
   \<and> uuidv4 host0 0 = ''uuid-0''
   \<and> map_option mp_id
        (maternalProfileStorage
           (snd (post_maternal_profiles host0 (janeDoe\<lparr>mpb_id := Some ''client-chosen''\<rparr>) world0))
           ''client-chosen'')
       = Some ''client-chosen''
   \<and> maternalProfileStorage
        (snd (post_maternal_profiles host0 (janeDoe\<lparr>mpb_id := Some ''client-chosen''\<rparr>) world0))
        ''uuid-0''
       = None"
proof -
  let ?body = "janeDoe\<lparr>mpb_id := Some ''client-chosen''\<rparr>"
  have valid: "validateProfile ?body = None"
    by (simp add: validateProfile_def truthy_number_def truthy_string_def js_lt_def js_gt_def
        janeDoe_def emptyProfileBody_def trim_def isWhiteSpace_def bloodTypes_def)
  have body: "mpb_primaryCareProviderId ?body = Some ''provider-123''"
    "mpb_dueDate ?body = Some ''2024-12-25''"
    by (simp_all add: janeDoe_def emptyProfileBody_def)
  have fields: "mp_id (newMaternalProfile host0 ?body d) = ''client-chosen''"
    "mp_dueDate (newMaternalProfile host0 ?body d) = d"
    "mp_createdAt (newMaternalProfile host0 ?body d) = 1700000000000000000"
    "mp_lastUpdated (newMaternalProfile host0 ?body d) = 1700000000000000000" for d
    by (simp_all add: newMaternalProfile_def spread_def host0_def janeDoe_def
        emptyProfileBody_def)
  have "maternalProfileStorage world0 = Map.empty"
    by (simp add: world0_def)
  moreover have "uuidv4 host0 0 = ''uuid-0''"
    by (simp add: host0_def)
  ultimately show ?thesis
    by (simp add: post_maternal_profiles_def valid body provider_janeDoe getTime_due0
        storeTime_due0 Let_def serializeProfile_def fields displayTime_due0 displayTime_clock0)
qed

text \<open>The same holds for the metrics of both versions.\<close>

lemma post_health_metrics_stored_id:
  "fst (post_health_metrics h body w) = Json json \<Longrightarrow>
   hm_id (sm_metrics json) = spread (uuidv4 h 0) (hmb_id body)"
  by (simp add: post_health_metrics_json newHealthMetrics_def)

lemma post_health_metrics_v11_stored_id:
  "storage_get (maternalProfileStorage w) (hmb_maternalProfileId body) = Returned (Some profile)
   \<Longrightarrow> validateHealthMetrics_v11 body = None \<Longrightarrow>
   post_health_metrics_v11 h body w
     = (Error 500 ''Failed to record health metrics'',
        w\<lparr>metricsStorage :=
            (metricsStorage w)(spread (uuidv4 h 0) (hmb_id body) \<mapsto> newHealthMetrics h body)\<rparr>)"
  by (simp add: post_health_metrics_v11_def Let_def newHealthMetrics_def)

section \<open>Version 1.1.0\<close>

text \<open>Version 1.1.0 creates a profile for a provider that does not exist, and gives it
  neither a risk level nor a trimester; its answer is the 500 of \<^verbatim>\<open>res.json\<close> on the
  bigints, after the insert.\<close>

lemma post_maternal_profiles_v11_unknown_provider:
  "post_maternal_profiles_v11 host0
       (janeDoe\<lparr>mpb_primaryCareProviderId := Some ''provider-999''\<rparr>) world0
     = (Error 500 ''Internal server error'',
        world0\<lparr>maternalProfileStorage :=
          [''uuid-0'' \<mapsto> newMaternalProfile_v11 host0
                (janeDoe\<lparr>mpb_primaryCareProviderId := Some ''provider-999''\<rparr>)
                1735084800000000000]\<rparr>)
   \<and> mp_riskLevel (newMaternalProfile_v11 host0
                (janeDoe\<lparr>mpb_primaryCareProviderId := Some ''provider-999''\<rparr>)
                1735084800000000000) = None
   \<and> mp_currentTrimester (newMaternalProfile_v11 host0
                (janeDoe\<lparr>mpb_primaryCareProviderId := Some ''provider-999''\<rparr>)
                1735084800000000000) = None"
proof -
  let ?body = "janeDoe\<lparr>mpb_primaryCareProviderId := Some ''provider-999''\<rparr>"
  have san: "(if truthy_string (mpb_name ?body)
               then ?body\<lparr>mpb_name := Some (sanitizeString (the (mpb_name ?body)))\<rparr>
               else ?body) = ?body"
    by (simp add: truthy_string_def sanitizeString_def janeDoe_def emptyProfileBody_def)
  have valid: "validateProfile_v11 ?body = None"
    by (simp add: validateProfile_v11_def truthy_number_def truthy_string_def js_lt_def
        js_gt_def janeDoe_def emptyProfileBody_def trim_def isWhiteSpace_def bloodTypes_def)
  have due: "parseDateToBigInt host0 (mpb_dueDate janeDoe) = Some 1735084800000000000"
    by (simp add: parseDateToBigInt_def getTime_def host0_def NANOS_PER_MILLISECOND_def
        janeDoe_def emptyProfileBody_def)
  have fields: "mp_id (newMaternalProfile_v11 host0 ?body d) = ''uuid-0''"
    "mp_riskLevel (newMaternalProfile_v11 host0 ?body d) = None"
    "mp_currentTrimester (newMaternalProfile_v11 host0 ?body d) = None" for d
    by (simp_all add: newMaternalProfile_v11_def spread_def host0_def janeDoe_def
        emptyProfileBody_def)
  have "maternalProfileStorage world0 = Map.empty"
    by (simp add: world0_def)
  then show ?thesis
    unfolding post_maternal_profiles_v11_def san
    by (simp add: valid due fields Let_def)
qed

text \<open>Version 1.1.0 looks the profile of the metrics up before anything else: an
  identifier that is not in the profile collection is answered 404 and nothing is
  written; without an identifier the lookup throws and the answer is 500.\<close>

lemma post_health_metrics_v11_unknown_profile:
  "hmb_maternalProfileId body = Some profileId \<Longrightarrow> maternalProfileStorage w profileId = None \<Longrightarrow>
   post_health_metrics_v11 h body w = (Error 404 ''Maternal profile not found'', w)"
  by (simp add: post_health_metrics_v11_def storage_get_def)

lemma post_health_metrics_v11_no_profile_id:
  "hmb_maternalProfileId body = None \<Longrightarrow>
   post_health_metrics_v11 h body w = (Error 500 ''Failed to record health metrics'', w)"
  by (simp add: post_health_metrics_v11_def storage_get_def)

section \<open>Recording metrics for an unknown profile\<close>

text \<open>
  Claim C5. For every metrics input whose \<open>maternalProfileId\<close> does not resolve to an
  existing MaternalProfile, \<^verbatim>\<open>POST /health-metrics\<close> answers with the not-found error and
  inserts nothing into any collection: neither a metrics record nor an alert is stored.
  The handler of version 1.1.0 does so for an identifier that is not in the collection
  (\<open>post_health_metrics_v11_unknown_profile\<close>); the handler of version 1.0.0 never reads
  the profile collection: in a world without profiles, the README's check-up for
  \<open>profile-123\<close> with a systolic pressure of 150 is accepted, its record is stored and an
  alert is created.
\<close>

theorem recordMetrics_stores_for_unknown_profile:
  "hmb_maternalProfileId (regularCheckup\<lparr>hmb_bloodPressureSystolic := Some 150\<rparr>)
     = Some ''profile-123''
   \<and> maternalProfileStorage world0 ''profile-123'' = None
   \<and> fst (post_health_metrics host0
            (regularCheckup\<lparr>hmb_bloodPressureSystolic := Some 150\<rparr>) world0)
     = Json \<lparr>sm_metrics =
               (newHealthMetrics host0 (regularCheckup\<lparr>hmb_bloodPressureSystolic := Some 150\<rparr>))
                 \<lparr>hm_isFlaggedForReview := True\<rparr>,
             sm_recordedAt = ISO 1700000000000\<rparr>
   \<and> metricsStorage (snd (post_health_metrics host0
            (regularCheckup\<lparr>hmb_bloodPressureSystolic := Some 150\<rparr>) world0)) ''uuid-0''
     = Some ((newHealthMetrics host0 (regularCheckup\<lparr>hmb_bloodPressureSystolic := Some 150\<rparr>))
               \<lparr>hm_isFlaggedForReview := True\<rparr>)
   \<and> map_option ha_maternalProfileId
        (alertStorage (snd (post_health_metrics host0
            (regularCheckup\<lparr>hmb_bloodPressureSystolic := Some 150\<rparr>) world0)) ''uuid-1'')
     = Some (Some ''profile-123'')"
proof -
  let ?body = "regularCheckup\<lparr>hmb_bloodPressureSystolic := Some 150\<rparr>"
  have risk: "assessRisk (newHealthMetrics host0 ?body)"
    by (simp add: assessRisk_def newHealthMetrics_def js_ge_def regularCheckup_def
        emptyMetricsBody_def)
  have valid: "validateHealthMetrics ?body = None"
    by (simp add: validateHealthMetrics_def truthy_number_def js_lt_def js_gt_def
        regularCheckup_def emptyMetricsBody_def)
  have fields: "hm_recordedAt (newHealthMetrics host0 ?body) = 1700000000000000000"
    "hm_id (newHealthMetrics host0 ?body) = ''uuid-0''"
    "hm_maternalProfileId (newHealthMetrics host0 ?body) = Some ''profile-123''"
    by (simp_all add: newHealthMetrics_def spread_def host0_def regularCheckup_def
        emptyMetricsBody_def)
  have second: "uuidv4 host0 (Suc 0) = ''uuid-1''"
    by (simp add: host0_def)
  have body: "hmb_maternalProfileId ?body = Some ''profile-123''"
    by (simp add: regularCheckup_def emptyMetricsBody_def)
  have empty: "maternalProfileStorage world0 ''profile-123'' = None"
    by (simp add: world0_def)
  have response: "fst (post_health_metrics host0 ?body world0)
      = Json \<lparr>sm_metrics = (newHealthMetrics host0 ?body)\<lparr>hm_isFlaggedForReview := True\<rparr>,
               sm_recordedAt = ISO 1700000000000\<rparr>"
    by (simp add: post_health_metrics_def valid risk Let_def serializeMetrics_def fields
        displayTime_clock0)
  have stored: "metricsStorage (snd (post_health_metrics host0 ?body world0)) ''uuid-0''
      = Some ((newHealthMetrics host0 ?body)\<lparr>hm_isFlaggedForReview := True\<rparr>)"
    by (simp add: post_health_metrics_world [OF valid] risk Let_def fields)
  have alert: "map_option ha_maternalProfileId
        (alertStorage (snd (post_health_metrics host0 ?body world0)) ''uuid-1'')
      = Some (Some ''profile-123'')"
    by (simp add: post_health_metrics_world [OF valid] risk Let_def createHighRiskAlert_def
        second fields)
  from body empty response stored alert show ?thesis
    by (intro conjI)
qed

section \<open>Alert life cycle\<close>

text \<open>
  Claim C10. \<open>resolveAlert(id, notes)\<close> on an identifier that is not in the alert
  collection returns NotFoundError; on an Open alert (\<open>resolved = false\<close>) it returns that
  alert, now Resolved, with \<open>resolved = true\<close>, a \<open>resolvedAt\<close> that is not null, and the
  notes, and stores it; Resolved is terminal: resolving a Resolved alert, for one the
  alert just resolved, changes nothing and returns the alert as it is.
\<close>

theorem resolveAlert_lifecycle:
  "(alertStorage w alertId = None \<longrightarrow>
      resolveAlert now alertId notes w = (Inl NotFoundError, w))
   \<and> (\<forall>alert. alertStorage w alertId = Some alert \<and> \<not> ha_resolved alert \<longrightarrow>
        (\<exists>resolved.
           resolveAlert now alertId notes w
             = (Inr resolved, w\<lparr>alertStorage := (alertStorage w)(alertId \<mapsto> resolved)\<rparr>)
           \<and> resolved = alert\<lparr>ha_resolved := True, ha_resolvedAt := Some now,
                               ha_resolutionNotes := notes\<rparr>
           \<and> ha_resolved resolved \<and> ha_resolvedAt resolved \<noteq> None
           \<and> resolveAlert later alertId notes'
                (snd (resolveAlert now alertId notes w))
               = (Inr resolved, snd (resolveAlert now alertId notes w))))
   \<and> (\<forall>alert. alertStorage w alertId = Some alert \<and> ha_resolved alert \<longrightarrow>
        resolveAlert now alertId notes w = (Inr alert, w))"
  by (simp add: resolveAlert_def Let_def)

theorem resolveAlert_lifecycle_witness:
  "resolveAlert 1700000000001000000000 ''uuid-9'' (Some ''reviewed, stable'')
       (createHighRiskAlert host0 (newHealthMetrics host0 regularCheckup) world0)
     = (Inl NotFoundError, createHighRiskAlert host0 (newHealthMetrics host0 regularCheckup) world0)
   \<and> (\<exists>resolved.
         fst (resolveAlert 1700000000001000000000 ''uuid-1'' (Some ''reviewed, stable'')
                (createHighRiskAlert host0 (newHealthMetrics host0 regularCheckup) world0))
           = Inr resolved
         \<and> ha_resolved resolved
         \<and> ha_resolvedAt resolved = Some 1700000000001000000000
         \<and> ha_resolutionNotes resolved = Some ''reviewed, stable''
         \<and> resolveAlert 1700000000002000000000 ''uuid-1'' None
              (snd (resolveAlert 1700000000001000000000 ''uuid-1'' (Some ''reviewed, stable'')
                (createHighRiskAlert host0 (newHealthMetrics host0 regularCheckup) world0)))
             = (Inr resolved,
                snd (resolveAlert 1700000000001000000000 ''uuid-1'' (Some ''reviewed, stable'')
                (createHighRiskAlert host0 (newHealthMetrics host0 regularCheckup) world0))))"
proof -
  let ?w = "createHighRiskAlert host0 (newHealthMetrics host0 regularCheckup) world0"
  obtain alert where open_alert: "alertStorage ?w ''uuid-1'' = Some alert" "\<not> ha_resolved alert"
    by (simp add: createHighRiskAlert_def host0_def Let_def)
  have missing: "alertStorage ?w ''uuid-9'' = None"
    by (simp add: createHighRiskAlert_def host0_def world0_def Let_def)
  from resolveAlert_lifecycle [of ?w "''uuid-9''" 1700000000001000000000 "Some ''reviewed, stable''"] missing
  have 1: "resolveAlert 1700000000001000000000 ''uuid-9'' (Some ''reviewed, stable'') ?w
      = (Inl NotFoundError, ?w)"
    by blast
  from resolveAlert_lifecycle [of ?w "''uuid-1''" 1700000000001000000000 "Some ''reviewed, stable''"
      1700000000002000000000 None] open_alert
  obtain resolved where
    "resolveAlert 1700000000001000000000 ''uuid-1'' (Some ''reviewed, stable'') ?w
       = (Inr resolved, ?w\<lparr>alertStorage := (alertStorage ?w)(''uuid-1'' \<mapsto> resolved)\<rparr>)"
    "resolved = alert\<lparr>ha_resolved := True, ha_resolvedAt := Some 1700000000001000000000,
                       ha_resolutionNotes := Some ''reviewed, stable''\<rparr>"
    "resolveAlert 1700000000002000000000 ''uuid-1'' None
        (snd (resolveAlert 1700000000001000000000 ''uuid-1'' (Some ''reviewed, stable'') ?w))
       = (Inr resolved,
          snd (resolveAlert 1700000000001000000000 ''uuid-1'' (Some ''reviewed, stable'') ?w))"
    by blast
  with 1 show ?thesis
    by simp
qed

end
